theory Spec2Isabelle
  imports Complex_Main "HOL-Library.AList"
begin

section \<open>JavaScript values, strings and plain objects\<close>

text \<open>
  The two runtimes of the repository (\<^verbatim>\<open>h6x-atomic-runtime.js\<close> and the
  \<^verbatim>\<open>Store\<close> of the HTML-6X runtime) work on JSON data, attribute strings and
  plain objects used as dictionaries.

  \<^item> A JSON value is a tree \<open>jsval\<close>. Numbers are mathematical integers, which
    stand for themselves below \<open>2^53\<close> in absolute value (the claims never depend on
    fractions or on the rounding of payload numbers).
  \<^item> A string is a list of code units; the \<open>char\<close> of HOL covers U+0000 to U+00FF.
  \<^item> The own properties of an object are a list in insertion order: an assignment is
    \<open>AList.update\<close> (an existing key keeps its place, a new key goes last). The order
    in which JavaScript enumerates them, array indices first, is \<open>own_keys_order\<close>.
  \<^item> An object written \<^verbatim>\<open>{}\<close> inherits from \<^verbatim>\<open>Object.prototype\<close>: reading and
    writing it follow the prototype chain, the key \<^verbatim>\<open>__proto__\<close> included.
  \<^item> \<^verbatim>\<open>getAttribute\<close> returns a string or \<^verbatim>\<open>null\<close>: a \<open>string option\<close>.
\<close>

datatype jsval =
    JUndefined
  | JNull
  | JBool bool
  | JNum int
  | JStr string
  | JArr "jsval list"
  | JObj "(string \<times> jsval) list"

type_synonym obj = "(string \<times> jsval) list"

text \<open>ToBoolean, as \<^verbatim>\<open>!x\<close> and \<^verbatim>\<open>if (x)\<close> apply it.\<close>

fun truthy :: "jsval \<Rightarrow> bool" where
  "truthy JUndefined = False"
| "truthy JNull = False"
| "truthy (JBool b) = b"
| "truthy (JNum n) = (n \<noteq> 0)"
| "truthy (JStr s) = (s \<noteq> [])"
| "truthy (JArr xs) = True"
| "truthy (JObj kvs) = True"

definition truthy_attr :: "string option \<Rightarrow> bool" where
  "truthy_attr a = (case a of None \<Rightarrow> False | Some s \<Rightarrow> s \<noteq> [])"

text \<open>A property key made of an attribute: \<^verbatim>\<open>null\<close> becomes the key \<^verbatim>\<open>"null"\<close>.\<close>

definition prop_key :: "string option \<Rightarrow> string" where
  "prop_key a = (case a of None \<Rightarrow> ''null'' | Some s \<Rightarrow> s)"

text \<open>
  White space as \<^verbatim>\<open>String.prototype.trim\<close> and the class \<^verbatim>\<open>\s\<close> see it, within
  U+0000 to U+00FF: tab, line feed, vertical tab, form feed, carriage return, space and
  the no-break space.
\<close>

definition is_space :: "char \<Rightarrow> bool" where
  "is_space c = (c \<in> set [CHR 0x09, CHR 0x0A, CHR 0x0B, CHR 0x0C, CHR 0x0D, CHR 0x20, CHR 0xA0])"

definition trim :: "string \<Rightarrow> string" where
  "trim s = rev (dropWhile is_space (rev (dropWhile is_space s)))"

text \<open>
  \<^verbatim>\<open>s.split(sep)\<close> for a one-character separator: the pieces between the
  separators, so the result is never empty and \<^verbatim>\<open>"".split(sep)\<close> is \<^verbatim>\<open>[""]\<close>.
\<close>

fun split_on :: "char \<Rightarrow> string \<Rightarrow> string list" where
  "split_on sep [] = [[]]"
| "split_on sep (c # cs) =
     (if c = sep then [] # split_on sep cs
      else (case split_on sep cs of
              [] \<Rightarrow> [[c]]
            | w # ws \<Rightarrow> (c # w) # ws))"

definition is_digit :: "char \<Rightarrow> bool" where
  "is_digit c = (48 \<le> (of_char c :: nat) \<and> (of_char c :: nat) \<le> 57)"

text \<open>The class \<^verbatim>\<open>\w\<close>: letters, digits and the underscore.\<close>

definition is_word :: "char \<Rightarrow> bool" where
  "is_word c =
     ((97 \<le> (of_char c :: nat) \<and> (of_char c :: nat) \<le> 122)
      \<or> (65 \<le> (of_char c :: nat) \<and> (of_char c :: nat) \<le> 90)
      \<or> is_digit c \<or> c = CHR ''_'')"

definition digit_char :: "nat \<Rightarrow> char" where
  "digit_char d = char_of (48 + d)"

function show_nat :: "nat \<Rightarrow> string" where
  "show_nat n = (if n < 10 then [digit_char n] else show_nat (n div 10) @ [digit_char (n mod 10)])"
  by pat_completeness auto
termination
  by (relation "measure (\<lambda>n. n)") auto

definition show_int :: "int \<Rightarrow> string" where
  "show_int i = (if i < 0 then CHR ''-'' # show_nat (nat (- i)) else show_nat (nat i))"

definition digit_val :: "char \<Rightarrow> nat" where
  "digit_val c = of_char c - 48"

text \<open>
  \<^verbatim>\<open>parseInt\<close> of a string of decimal digits: the number itself, which is what
  JavaScript computes for a numeral below \<open>2^53\<close> (a longer one it rounds to the nearest
  double).
\<close>

definition parse_digits :: "string \<Rightarrow> nat" where
  "parse_digits ds = foldl (\<lambda>acc c. 10 * acc + digit_val c) 0 ds"

text \<open>A key that is an array index: a decimal numeral with no leading zero.\<close>

definition is_index :: "string \<Rightarrow> bool" where
  "is_index k = (k \<noteq> [] \<and> list_all is_digit k \<and> (k = ''0'' \<or> hd k \<noteq> CHR ''0''))"

text \<open>
  The order in which the own properties of an object are enumerated: the keys that are
  array indices (up to \<open>2^32 - 2\<close>) in ascending order, then the other keys in
  insertion order.
\<close>

definition is_array_index :: "string \<Rightarrow> bool" where
  "is_array_index k = (is_index k \<and> parse_digits k < 4294967295)"

definition own_keys_order :: "(string \<times> 'a) list \<Rightarrow> (string \<times> 'a) list" where
  "own_keys_order kvs =
     sort_key (\<lambda>kv. parse_digits (fst kv)) (filter (\<lambda>kv. is_array_index (fst kv)) kvs)
     @ filter (\<lambda>kv. \<not> is_array_index (fst kv)) kvs"

text \<open>The errors a JavaScript operation of the modelled code can throw.\<close>

datatype js_error = TypeError | SyntaxError | DataCloneError | Error string

section \<open>Plain objects and what they inherit\<close>

text \<open>
  An object written \<^verbatim>\<open>{}\<close> has own properties and a prototype, at first
  \<^verbatim>\<open>Object.prototype\<close>. Reading \<^verbatim>\<open>obj[k]\<close> gives the own property \<open>k\<close>, or else
  what the prototype chain holds under \<open>k\<close>. What is found there and is no JSON value
  is a \<open>Native\<close> member: a built-in function with its \<^verbatim>\<open>length\<close>, or the object
  \<^verbatim>\<open>Object.prototype\<close> itself (\<open>Native None\<close>). The tables list the string-keyed
  members of \<^verbatim>\<open>Object.prototype\<close> (with those browsers add to it) and of
  \<^verbatim>\<open>Array.prototype\<close>, each with the \<^verbatim>\<open>length\<close> of the function; the accessor
  \<^verbatim>\<open>__proto__\<close> of \<^verbatim>\<open>Object.prototype\<close> is treated apart.
\<close>

datatype member = Member jsval | Native "nat option"

fun truthy_member :: "member \<Rightarrow> bool" where
  "truthy_member (Member v) = truthy v"
| "truthy_member (Native len) = True"

definition object_prototype :: "(string \<times> nat option) list" where
  "object_prototype =
     [(''constructor'', Some 1), (''hasOwnProperty'', Some 1), (''isPrototypeOf'', Some 1),
      (''propertyIsEnumerable'', Some 1), (''toLocaleString'', Some 0), (''toString'', Some 0),
      (''valueOf'', Some 0), (''__defineGetter__'', Some 2), (''__defineSetter__'', Some 2),
      (''__lookupGetter__'', Some 1), (''__lookupSetter__'', Some 1)]"

definition array_prototype :: "(string \<times> nat option) list" where
  "array_prototype =
     [(''constructor'', Some 1), (''at'', Some 1), (''concat'', Some 1), (''copyWithin'', Some 2),
      (''entries'', Some 0), (''every'', Some 1), (''fill'', Some 1), (''filter'', Some 1),
      (''find'', Some 1), (''findIndex'', Some 1), (''findLast'', Some 1),
      (''findLastIndex'', Some 1), (''flat'', Some 0), (''flatMap'', Some 1),
      (''forEach'', Some 1), (''includes'', Some 1), (''indexOf'', Some 1), (''join'', Some 1),
      (''keys'', Some 0), (''lastIndexOf'', Some 1), (''map'', Some 1), (''pop'', Some 0),
      (''push'', Some 1), (''reduce'', Some 1), (''reduceRight'', Some 1), (''reverse'', Some 0),
      (''shift'', Some 0), (''slice'', Some 2), (''some'', Some 1), (''sort'', Some 1),
      (''splice'', Some 2), (''toLocaleString'', Some 0), (''toReversed'', Some 0),
      (''toSorted'', Some 1), (''toSpliced'', Some 2), (''toString'', Some 0),
      (''unshift'', Some 1), (''values'', Some 0), (''with'', Some 2)]"

text \<open>
  The prototype of a plain object: \<^verbatim>\<open>Object.prototype\<close>, \<^verbatim>\<open>null\<close>, or a JSON
  object or array that an assignment to \<^verbatim>\<open>__proto__\<close> has put there.
\<close>

datatype proto = ObjectProto | NullProto | ValueProto jsval

record plain =
  o_own :: obj
  o_proto :: proto

definition empty_object :: plain where
  "empty_object = \<lparr> o_own = [], o_proto = ObjectProto \<rparr>"

text \<open>
  A key found on \<^verbatim>\<open>Object.prototype\<close>; \<open>self\<close> is the prototype of the object that is
  read, which is what the getter of \<^verbatim>\<open>__proto__\<close> returns.
\<close>

definition from_object_prototype :: "member \<Rightarrow> string \<Rightarrow> member" where
  "from_object_prototype self k =
     (if k = ''__proto__'' then self
      else (case map_of object_prototype k of
              None \<Rightarrow> Member JUndefined
            | Some len \<Rightarrow> Native len))"

definition inherited :: "proto \<Rightarrow> string \<Rightarrow> member" where
  "inherited p k =
     (case p of
        ObjectProto \<Rightarrow> from_object_prototype (Native None) k
      | NullProto \<Rightarrow> Member JUndefined
      | ValueProto v \<Rightarrow>
          (case v of
             JObj kvs \<Rightarrow>
               (case map_of kvs k of
                  Some x \<Rightarrow> Member x
                | None \<Rightarrow> from_object_prototype (Member v) k)
           | JArr xs \<Rightarrow>
               if k = ''length'' then Member (JNum (int (length xs)))
               else if is_index k \<and> parse_digits k < length xs then Member (xs ! parse_digits k)
               else (case map_of array_prototype k of
                       Some len \<Rightarrow> Native len
                     | None \<Rightarrow> from_object_prototype (Member v) k)
           | _ \<Rightarrow> Member JUndefined))"

definition read_plain :: "plain \<Rightarrow> string \<Rightarrow> member" where
  "read_plain ob k =
     (case map_of (o_own ob) k of
        Some v \<Rightarrow> Member v
      | None \<Rightarrow> inherited (o_proto ob) k)"

text \<open>\<^verbatim>\<open>obj[k]\<close> for an object literal given by its own properties.\<close>

definition obj_get :: "obj \<Rightarrow> string \<Rightarrow> member" where
  "obj_get kvs k = read_plain \<lparr> o_own = kvs, o_proto = ObjectProto \<rparr> k"

text \<open>
  \<^verbatim>\<open>obj[k] = v\<close>. Every key but \<^verbatim>\<open>__proto__\<close> becomes or stays an own property.
  The key \<^verbatim>\<open>__proto__\<close> reaches the setter of \<^verbatim>\<open>Object.prototype\<close> unless the
  object, or the JSON object that is its prototype, has an own property of that name, or
  its prototype is \<^verbatim>\<open>null\<close>; the setter makes an object, an array or \<^verbatim>\<open>null\<close> the new
  prototype and ignores any other value, and adds no own property.
\<close>

definition setter_reachable :: "plain \<Rightarrow> bool" where
  "setter_reachable ob =
     (map_of (o_own ob) ''__proto__'' = None \<and>
      (case o_proto ob of
         ObjectProto \<Rightarrow> True
       | NullProto \<Rightarrow> False
       | ValueProto v \<Rightarrow>
           (case v of JObj kvs \<Rightarrow> map_of kvs ''__proto__'' = None | _ \<Rightarrow> True)))"

definition set_plain :: "plain \<Rightarrow> string \<Rightarrow> jsval \<Rightarrow> plain" where
  "set_plain ob k v =
     (if k = ''__proto__'' \<and> setter_reachable ob then
        (case v of
           JObj kvs \<Rightarrow> ob \<lparr> o_proto := ValueProto v \<rparr>
         | JArr xs \<Rightarrow> ob \<lparr> o_proto := ValueProto v \<rparr>
         | JNull \<Rightarrow> ob \<lparr> o_proto := NullProto \<rparr>
         | _ \<Rightarrow> ob)
      else ob \<lparr> o_own := AList.update k v (o_own ob) \<rparr>)"

text \<open>
  \<^verbatim>\<open>obj[k] = v\<close> on an object written \<^verbatim>\<open>{}\<close> whose values are arrays or strings (a
  rule set, an error object), kept as the list of its own properties. For the key
  \<^verbatim>\<open>__proto__\<close> the setter takes the array as the new prototype, or ignores the
  string; no own property is added, and the setter stays in reach. The code reads these
  objects with \<^verbatim>\<open>Object.entries\<close> and \<^verbatim>\<open>Object.keys\<close>, which list own properties.
\<close>

definition assign :: "string \<Rightarrow> 'a \<Rightarrow> (string \<times> 'a) list \<Rightarrow> (string \<times> 'a) list" where
  "assign k v kvs = (if k = ''__proto__'' then kvs else AList.update k v kvs)"

section \<open>The atomic runtime: data model\<close>

text \<open>
  A number produced by \<^verbatim>\<open>neutrons.length / protons.length\<close>: the quotient of two
  array lengths. Its comparison with \<^verbatim>\<open>1.0\<close> has the outcome of the exact
  quotient, so the finite case carries the rational; a positive length over zero is
  \<^verbatim>\<open>Infinity\<close> and zero over zero is \<^verbatim>\<open>NaN\<close>.
\<close>

datatype jsnum = Finite rat | Infinity | NaN

definition js_div :: "nat \<Rightarrow> nat \<Rightarrow> jsnum" where
  "js_div n p =
     (if p = 0 then (if n = 0 then NaN else Infinity)
      else Finite (of_nat n / of_nat p))"

fun num_lt :: "jsnum \<Rightarrow> rat \<Rightarrow> bool" where
  "num_lt (Finite r) b = (r < b)"
| "num_lt Infinity b = False"
| "num_lt NaN b = False"

record proton =
  p_id :: string
  p_source :: "string option"
  p_local :: "string option"
  p_cache :: string
  p_persist :: "string option"
  p_fallback :: "string option"
  p_data :: jsval

text \<open>
  A parsed rule set is a plain object. Its values are arrays of rule names (kinds
  \<^verbatim>\<open>validate\<close> and \<^verbatim>\<open>transform\<close>) or expression strings (kind \<^verbatim>\<open>compute\<close>).
\<close>

datatype rule_val = RList "string list" | RExpr string

type_synonym rule_set = "(string \<times> rule_val) list"

record neutron =
  n_id :: string
  n_type :: "string option"
  n_rules :: rule_set
  n_weight :: nat

datatype energy = Ground | Excited

record electron =
  e_id :: string
  e_on :: "string option"
  e_action :: "string option"
  e_endpoint :: "string option"
  e_method :: string
  e_redirect :: "string option"
  e_bond :: "string option"
  e_emit :: "string option"
  e_listen :: "string option"
  e_energy :: energy
  e_orbital :: member

text \<open>The markup the parser reads: the attributes of each child element, in document order.\<close>

record proton_node =
  pn_source :: "string option"
  pn_local :: "string option"
  pn_cache :: "string option"
  pn_persist :: "string option"
  pn_fallback :: "string option"

record neutron_node =
  nn_type :: "string option"
  nn_textContent :: string

record electron_node =
  en_on :: "string option"
  en_action :: "string option"
  en_endpoint :: "string option"
  en_method :: "string option"
  en_redirect :: "string option"
  en_bond :: "string option"
  en_emit :: "string option"
  en_listen :: "string option"

record atom_node =
  an_name :: "string option"
  an_protons :: "proton_node list"
  an_neutrons :: "neutron_node list"
  an_electrons :: "electron_node list"

record atom =
  a_name :: "string option"
  atomicNumber :: nat
  atomicMass :: nat
  stability :: jsnum
  protons :: "proton list"
  neutrons :: "neutron list"
  electrons :: "electron list"
  element :: atom_node

text \<open>
  The browser as the parser sees it: \<^verbatim>\<open>localStorage.getItem\<close> (\<open>None\<close> when it
  throws, \<open>Some None\<close> for \<^verbatim>\<open>null\<close>) and \<^verbatim>\<open>JSON.parse\<close> (\<open>None\<close> when it throws
  a SyntaxError).
\<close>

record browser =
  getItem :: "string \<Rightarrow> string option option"
  json_parse :: "string \<Rightarrow> jsval option"

text \<open>The error object of a validation: field name to messages.\<close>

type_synonym error_map = "(string \<times> string list) list"

record validation =
  valid :: bool
  errors :: error_map

text \<open>
  What a run does besides returning, in program order. Console messages are kept by
  their kind and arguments, not by their text.
\<close>

datatype effect =
    WarnUnstable "string option" jsnum
  | LogAtomParsed "string option" nat nat nat nat
  | FetchSource string
  | ErrorNoEndpoint
  | GatherData plain
  | Validated validation
  | ErrorValidationFailed error_map
  | Fetch string string string
  | LogSubmitSuccessful
  | ErrorSubmitFailed
  | Navigate "string option"
  | LogValidationResult validation
  | WarnUnknownAction "string option"
  | DispatchAtomEvent string plain

section \<open>The atomic runtime: NucleusManager\<close>

text \<open>
  \<^verbatim>\<open>loadLocalData(key)\<close>: the stored text parsed as JSON; \<^verbatim>\<open>null\<close> when nothing
  (or the empty string) is stored and when either call throws.
\<close>

definition loadLocalData :: "browser \<Rightarrow> string \<Rightarrow> jsval" where
  "loadLocalData br key =
     (case getItem br key of
        None \<Rightarrow> JNull
      | Some None \<Rightarrow> JNull
      | Some (Some text) \<Rightarrow>
          if text = [] then JNull
          else (case json_parse br text of None \<Rightarrow> JNull | Some v \<Rightarrow> v))"

text \<open>
  \<^verbatim>\<open>extractProtons\<close>, one node: the proton, and the request that
  \<^verbatim>\<open>loadRemoteData\<close> starts when the node names a source (its response arrives
  after the parse). The registries \<^verbatim>\<open>protonData\<close>, \<^verbatim>\<open>neutronRules\<close> and
  \<^verbatim>\<open>electrons\<close> are written and never read; they are left out.
\<close>

definition make_proton :: "browser \<Rightarrow> nat \<times> proton_node \<Rightarrow> proton" where
  "make_proton br ix =
     (case ix of (index, node) \<Rightarrow>
        \<lparr> p_id = CHR ''p'' # show_nat index,
          p_source = pn_source node,
          p_local = pn_local node,
          p_cache = (if truthy_attr (pn_cache node) then the (pn_cache node) else ''memory''),
          p_persist = pn_persist node,
          p_fallback = pn_fallback node,
          p_data = (if truthy_attr (pn_local node) then loadLocalData br (the (pn_local node))
                    else JNull) \<rparr>)"

definition remote_loads :: "proton \<Rightarrow> effect list" where
  "remote_loads p = (if truthy_attr (p_source p) then [FetchSource (the (p_source p))] else [])"

definition extractProtons :: "browser \<Rightarrow> atom_node \<Rightarrow> proton list \<times> effect list" where
  "extractProtons br atomNode =
     (let ps = map (make_proton br) (enumerate 0 (an_protons atomNode))
      in (ps, concat (map remote_loads ps)))"

text \<open>\<^verbatim>\<open>parseNeutronRules(content, type)\<close>: one line of each kind, then the whole text.\<close>

definition field_line :: "rule_set \<Rightarrow> string \<Rightarrow> rule_set" where
  "field_line rules line =
     (case map trim (split_on CHR '':'' line) of
        field # rulesStr # rest \<Rightarrow>
          if field \<noteq> [] \<and> rulesStr \<noteq> []
          then assign field (RList (map trim (split_on CHR '','' rulesStr))) rules
          else rules
      | _ \<Rightarrow> rules)"

definition compute_line :: "rule_set \<Rightarrow> string \<Rightarrow> rule_set" where
  "compute_line rules line =
     (case map trim (split_on CHR ''='' line) of
        name # expression # rest \<Rightarrow>
          if name \<noteq> [] \<and> expression \<noteq> []
          then assign name (RExpr expression) rules
          else rules
      | _ \<Rightarrow> rules)"

definition parseNeutronRules :: "string \<Rightarrow> string option \<Rightarrow> rule_set" where
  "parseNeutronRules content type =
     (if type = Some ''validate'' then foldl field_line [] (split_on CHR 0x0A content)
      else if type = Some ''compute'' then foldl compute_line [] (split_on CHR 0x0A content)
      else if type = Some ''transform'' then foldl field_line [] (split_on CHR 0x0A content)
      else [])"

definition make_neutron :: "nat \<times> neutron_node \<Rightarrow> neutron" where
  "make_neutron ix =
     (case ix of (index, node) \<Rightarrow>
        \<lparr> n_id = CHR ''n'' # show_nat index,
          n_type = nn_type node,
          n_rules = parseNeutronRules (trim (nn_textContent node)) (nn_type node),
          n_weight = 1 \<rparr>)"

definition extractNeutrons :: "atom_node \<Rightarrow> neutron list" where
  "extractNeutrons atomNode = map make_neutron (enumerate 0 (an_neutrons atomNode))"

section \<open>The atomic runtime: ElectronShell and AtomicKernel\<close>

text \<open>
  \<^verbatim>\<open>getOrbital(eventType)\<close>: \<^verbatim>\<open>orbitals[eventType] || 4\<close> on an object literal, so
  an event named like a member of \<^verbatim>\<open>Object.prototype\<close> gets that member.
\<close>

definition getOrbital :: "string option \<Rightarrow> member" where
  "getOrbital eventType =
     (let level =
        obj_get [(''click'', JNum 1), (''submit'', JNum 1), (''change'', JNum 2),
                 (''input'', JNum 2), (''focus'', JNum 3), (''blur'', JNum 3),
                 (''custom'', JNum 4)] (prop_key eventType)
      in if truthy_member level then level else Member (JNum 4))"

definition make_electron :: "nat \<times> electron_node \<Rightarrow> electron" where
  "make_electron ix =
     (case ix of (index, node) \<Rightarrow>
        \<lparr> e_id = CHR ''e'' # show_nat index,
          e_on = en_on node,
          e_action = en_action node,
          e_endpoint = en_endpoint node,
          e_method = (if truthy_attr (en_method node) then the (en_method node) else ''GET''),
          e_redirect = en_redirect node,
          e_bond = en_bond node,
          e_emit = en_emit node,
          e_listen = en_listen node,
          e_energy = Ground,
          e_orbital = getOrbital (en_on node) \<rparr>)"

definition extractElectrons :: "atom_node \<Rightarrow> electron list" where
  "extractElectrons atomNode = map make_electron (enumerate 0 (an_electrons atomNode))"

text \<open>
  \<^verbatim>\<open>parseAtom(atomNode)\<close>: the stability is the quotient when there is at least one
  neutron and \<^verbatim>\<open>1.0\<close> otherwise; the advisory is the pair of \<^verbatim>\<open>console.warn\<close>
  calls.
\<close>

definition compute_stability :: "nat \<Rightarrow> nat \<Rightarrow> jsnum" where
  "compute_stability n_neutrons n_protons =
     (if n_neutrons > 0 then js_div n_neutrons n_protons else Finite 1)"

definition parseAtom :: "browser \<Rightarrow> atom_node \<Rightarrow> atom \<times> effect list" where
  "parseAtom br atomNode =
     (let name = an_name atomNode;
          (ps, loads) = extractProtons br atomNode;
          ns = extractNeutrons atomNode;
          es = extractElectrons atomNode;
          number = length ps;
          mass = length ps + length ns;
          stab = compute_stability (length ns) (length ps);
          advisory = (if num_lt stab 1 \<and> number > 2 then [WarnUnstable name stab] else [])
      in (\<lparr> a_name = name, atomicNumber = number, atomicMass = mass, stability = stab,
            protons = ps, neutrons = ns, electrons = es, element = atomNode \<rparr>,
          loads @ advisory @ [LogAtomParsed name number (length ns) (length es) mass]))"

text \<open>Whether a run emitted the stability advisory.\<close>

definition advisory_emitted :: "effect list \<Rightarrow> bool" where
  "advisory_emitted effs =
     list_ex (\<lambda>e. case e of WarnUnstable name stab \<Rightarrow> True | _ \<Rightarrow> False) effs"

text \<open>Markup used as concrete input: a data source with a local key and a validation rule.\<close>

definition local_source :: "string \<Rightarrow> proton_node" where
  "local_source key =
     \<lparr> pn_source = None, pn_local = Some key, pn_cache = None, pn_persist = None,
       pn_fallback = None \<rparr>"

definition validate_rule :: "string \<Rightarrow> neutron_node" where
  "validate_rule body = \<lparr> nn_type = Some ''validate'', nn_textContent = body \<rparr>"


section \<open>The atomic runtime: applying rules\<close>

definition starts_with :: "string \<Rightarrow> string \<Rightarrow> bool" where
  "starts_with pre s = (take (length pre) s = pre)"


fun join_with :: "string \<Rightarrow> string list \<Rightarrow> string" where
  "join_with sep [] = []"
| "join_with sep [x] = x"
| "join_with sep (x # y # ys) = x @ sep @ join_with sep (y # ys)"

text \<open>ToString, as a regular expression's \<^verbatim>\<open>test\<close> applies it to its argument.\<close>

fun to_string :: "jsval \<Rightarrow> string" where
  "to_string JUndefined = ''undefined''"
| "to_string JNull = ''null''"
| "to_string (JBool b) = (if b then ''true'' else ''false'')"
| "to_string (JNum n) = show_int n"
| "to_string (JStr s) = s"
| "to_string (JArr xs) =
     join_with '','' (map (\<lambda>x. if x = JUndefined \<or> x = JNull then [] else to_string x) xs)"
| "to_string (JObj kvs) = ''[object Object]''"

text \<open>
  \<^verbatim>\<open>/^[^\s@]+@[^\s@]+\.[^\s@]+$/\<close>: no white space, exactly one \<^verbatim>\<open>@\<close>, something
  before it, and after it a dot that is neither its first nor its last character.
\<close>

definition email_pattern :: "string \<Rightarrow> bool" where
  "email_pattern s =
     (case split_on CHR ''@'' s of
        [name, host] \<Rightarrow>
          name \<noteq> [] \<and> \<not> list_ex is_space s \<and> CHR ''.'' \<in> set (butlast (tl host))
      | _ \<Rightarrow> False)"

text \<open>
  \<^verbatim>\<open>isValidEmail(email)\<close>. The text of a built-in function or of
  \<^verbatim>\<open>Object.prototype\<close> has no \<^verbatim>\<open>@\<close>.
\<close>

definition isValidEmail :: "member \<Rightarrow> bool" where
  "isValidEmail email =
     (case email of Member v \<Rightarrow> email_pattern (to_string v) | Native len \<Rightarrow> False)"

text \<open>
  \<^verbatim>\<open>rule.match(/\d+/)\<close>: the first run of digits, \<open>None\<close> for \<^verbatim>\<open>null\<close> when the rule
  has no digit.
\<close>

definition first_digits :: "string \<Rightarrow> string option" where
  "first_digits rule =
     (let ds = takeWhile is_digit (dropWhile (\<lambda>c. \<not> is_digit c) rule)
      in if ds = [] then None else Some ds)"

text \<open>
  \<^verbatim>\<open>value.length\<close>: a TypeError on \<^verbatim>\<open>undefined\<close> and \<^verbatim>\<open>null\<close>, the length of a
  string, an array or a function, the own property of an object, \<^verbatim>\<open>undefined\<close>
  otherwise.
\<close>

definition get_length :: "member \<Rightarrow> js_error + jsval" where
  "get_length m =
     (case m of
        Native None \<Rightarrow> Inr JUndefined
      | Native (Some n) \<Rightarrow> Inr (JNum (int n))
      | Member v \<Rightarrow>
          (case v of
             JUndefined \<Rightarrow> Inl TypeError
           | JNull \<Rightarrow> Inl TypeError
           | JStr s \<Rightarrow> Inr (JNum (int (length s)))
           | JArr xs \<Rightarrow> Inr (JNum (int (length xs)))
           | JObj kvs \<Rightarrow> Inr (case map_of kvs ''length'' of None \<Rightarrow> JUndefined | Some x \<Rightarrow> x)
           | _ \<Rightarrow> Inr JUndefined))"

text \<open>
  ToNumber, \<open>None\<close> for \<^verbatim>\<open>NaN\<close>. A string counts as a number when it is a decimal
  integer (the numbers of the model are integers).
\<close>

definition string_to_number :: "string \<Rightarrow> int option" where
  "string_to_number s =
     (let t = trim s in
      if t = [] then Some 0
      else if list_all is_digit t then Some (int (parse_digits t))
      else if hd t = CHR ''-'' \<and> tl t \<noteq> [] \<and> list_all is_digit (tl t)
        then Some (- int (parse_digits (tl t)))
      else if hd t = CHR ''+'' \<and> tl t \<noteq> [] \<and> list_all is_digit (tl t)
        then Some (int (parse_digits (tl t)))
      else None)"

definition to_number :: "jsval \<Rightarrow> int option" where
  "to_number v =
     (case v of
        JUndefined \<Rightarrow> None
      | JNull \<Rightarrow> Some 0
      | JBool b \<Rightarrow> Some (if b then 1 else 0)
      | JNum n \<Rightarrow> Some n
      | JStr s \<Rightarrow> string_to_number s
      | _ \<Rightarrow> string_to_number (to_string v))"

definition less_than :: "jsval \<Rightarrow> nat \<Rightarrow> bool" where
  "less_than v n = (case to_number v of None \<Rightarrow> False | Some i \<Rightarrow> i < int n)"

text \<open>
  \<^verbatim>\<open>NucleusManager.validate(data, neutron)\<close>, for data that is an object literal,
  given by its own properties. One rule against one value gives the messages it pushes,
  or the error it throws; \<^verbatim>\<open>forEach\<close> stops at the first throw.
  \<^verbatim>\<open>Object.entries\<close> lists the rules in the order of enumeration.
\<close>

definition check_rule :: "member \<Rightarrow> string \<Rightarrow> js_error + string list" where
  "check_rule val rule =
     (if rule = ''required'' \<and> \<not> truthy_member val then Inr [''This field is required'']
      else if rule = ''email-format'' \<and> \<not> isValidEmail val then Inr [''Invalid email format'']
      else if starts_with ''minLength'' rule then
        (case first_digits rule of
           None \<Rightarrow> Inl TypeError
         | Some ds \<Rightarrow>
             (case get_length val of
                Inl e \<Rightarrow> Inl e
              | Inr len \<Rightarrow>
                  if less_than len (parse_digits ds)
                  then Inr [''Minimum length is '' @ show_nat (parse_digits ds)]
                  else Inr []))
      else Inr [])"

fun check_rules :: "member \<Rightarrow> string list \<Rightarrow> js_error + string list" where
  "check_rules val [] = Inr []"
| "check_rules val (rule # rest) =
     (case check_rule val rule of
        Inl e \<Rightarrow> Inl e
      | Inr msgs \<Rightarrow>
          (case check_rules val rest of
             Inl e \<Rightarrow> Inl e
           | Inr others \<Rightarrow> Inr (msgs @ others)))"

fun validate_entries :: "obj \<Rightarrow> rule_set \<Rightarrow> error_map \<Rightarrow> js_error + error_map" where
  "validate_entries data [] errs = Inr errs"
| "validate_entries data ((field, rv) # rest) errs =
     (case rv of
        RExpr expr \<Rightarrow> Inl TypeError
      | RList rules \<Rightarrow>
          (case check_rules (obj_get data field) rules of
             Inl e \<Rightarrow> Inl e
           | Inr fieldErrors \<Rightarrow>
               validate_entries data rest
                 (if fieldErrors \<noteq> [] then assign field fieldErrors errs else errs)))"

definition nucleus_validate :: "obj \<Rightarrow> neutron \<Rightarrow> js_error + validation" where
  "nucleus_validate data neutron =
     (case validate_entries data (own_keys_order (n_rules neutron)) [] of
        Inl e \<Rightarrow> Inl e
      | Inr errs \<Rightarrow> Inr \<lparr> valid = (errs = []), errors = errs \<rparr>)"

section \<open>The atomic runtime: the action protocol\<close>

text \<open>\<^verbatim>\<open>gatherProtonData(atom)\<close>.\<close>

definition gather_step :: "plain \<Rightarrow> proton \<Rightarrow> plain" where
  "gather_step data p =
     (if truthy_attr (p_local p) then set_plain data (the (p_local p)) (p_data p) else data)"

definition gatherProtonData :: "atom \<Rightarrow> plain" where
  "gatherProtonData a = foldl gather_step empty_object (protons a)"















text \<open>The data sources of a component that declare a given local key, in document order.\<close>

definition sources_with_key :: "string \<Rightarrow> proton list \<Rightarrow> proton list" where
  "sources_with_key k ps = filter (\<lambda>p. truthy_attr (p_local p) \<and> p_local p = Some k) ps"







text \<open>
  A contact form as concrete input: one data source under the local key \<^verbatim>\<open>email\<close>
  with a given resolved value, one rule set of kind \<^verbatim>\<open>validate\<close> with a given body,
  and one event binding that submits to \<^verbatim>\<open>/api/contact\<close>.
\<close>

definition email_source :: "jsval \<Rightarrow> proton" where
  "email_source v =
     \<lparr> p_id = ''p0'', p_source = None, p_local = Some ''email'', p_cache = ''memory'',
       p_persist = None, p_fallback = None, p_data = v \<rparr>"

definition submit_electron :: electron where
  "submit_electron =
     \<lparr> e_id = ''e0'', e_on = Some ''submit'', e_action = Some ''send'',
       e_endpoint = Some ''/api/contact'', e_method = ''POST'', e_redirect = None,
       e_bond = None, e_emit = None, e_listen = None, e_energy = Ground,
       e_orbital = Member (JNum 1) \<rparr>"

definition contact_node :: "string \<Rightarrow> atom_node" where
  "contact_node body =
     \<lparr> an_name = Some ''contact'', an_protons = [local_source ''email''],
       an_neutrons = [validate_rule body],
       an_electrons =
         [\<lparr> en_on = Some ''submit'', en_action = Some ''send'',
            en_endpoint = Some ''/api/contact'', en_method = Some ''POST'', en_redirect = None,
            en_bond = None, en_emit = None, en_listen = None \<rparr>] \<rparr>"

definition contact_form :: "string \<Rightarrow> jsval \<Rightarrow> atom" where
  "contact_form body v =
     \<lparr> a_name = Some ''contact'', atomicNumber = 1, atomicMass = 2, stability = Finite 1,
       protons = [email_source v], neutrons = [make_neutron (0, validate_rule body)],
       electrons = [submit_electron], element = contact_node body \<rparr>"

text \<open>
  Two data sources that share the local key \<^verbatim>\<open>profile\<close>: the first also names a
  remote source and has received its response, the second is local only and found
  nothing stored.
\<close>

definition shared_key_atom :: atom where
  "shared_key_atom =
     \<lparr> a_name = Some ''profile'', atomicNumber = 2, atomicMass = 2, stability = Finite 1,
       protons =
         [\<lparr> p_id = ''p0'', p_source = Some ''/api/profile'', p_local = Some ''profile'',
            p_cache = ''memory'', p_persist = None, p_fallback = None,
            p_data = JObj [(''name'', JStr ''Ada'')] \<rparr>,
          \<lparr> p_id = ''p1'', p_source = None, p_local = Some ''profile'',
            p_cache = ''memory'', p_persist = None, p_fallback = None, p_data = JNull \<rparr>],
       neutrons = [], electrons = [],
       element =
         \<lparr> an_name = Some ''profile'',
           an_protons =
             [\<lparr> pn_source = Some ''/api/profile'', pn_local = Some ''profile'', pn_cache = None,
                pn_persist = None, pn_fallback = None \<rparr>,
              local_source ''profile''],
           an_neutrons = [], an_electrons = [] \<rparr> \<rparr>"

text \<open>
  A component with a data source whose local key is \<^verbatim>\<open>__proto__\<close>, between two
  sources that share the key \<^verbatim>\<open>k\<close>, and a rule that requires the field
  \<^verbatim>\<open>admin\<close>.
\<close>

definition keyed_source :: "string \<Rightarrow> jsval \<Rightarrow> proton" where
  "keyed_source k v =
     \<lparr> p_id = ''p0'', p_source = None, p_local = Some k, p_cache = ''memory'',
       p_persist = None, p_fallback = None, p_data = v \<rparr>"

definition proto_key_atom :: atom where
  "proto_key_atom =
     \<lparr> a_name = Some ''contact'', atomicNumber = 3, atomicMass = 4, stability = Finite 1,
       protons =
         [keyed_source ''k'' (JNum 1),
          keyed_source ''__proto__'' (JObj [(''admin'', JBool True)]),
          keyed_source ''k'' (JNum 2)],
       neutrons = [make_neutron (0, validate_rule ''admin: required'')],
       electrons = [submit_electron],
       element =
         \<lparr> an_name = Some ''contact'',
           an_protons = [local_source ''k'', local_source ''__proto__'', local_source ''k''],
           an_neutrons = [validate_rule ''admin: required''],
           an_electrons = an_electrons (contact_node ''admin: required'') \<rparr> \<rparr>"

section \<open>The store: objects with identity\<close>

text \<open>
  The claims on the \<^verbatim>\<open>Store\<close> speak of identity and of copies, so its values live
  in a heap. An array or an object is a cell at an address; a value is a primitive or a
  reference to a cell. Allocation appends a cell, so a fresh address is the length of the
  heap.
\<close>

type_synonym addr = nat

datatype hval = HUndefined | HNull | HBool bool | HNum int | HStr string | HRef addr

datatype cell = CArr "hval list" | CObj "(string \<times> hval) list"

type_synonym heap = "cell list"

definition cell_at :: "heap \<Rightarrow> addr \<Rightarrow> cell option" where
  "cell_at h a = (if a < length h then Some (h ! a) else None)"

definition children :: "cell \<Rightarrow> hval list" where
  "children c = (case c of CArr vs \<Rightarrow> vs | CObj kvs \<Rightarrow> map snd kvs)"

text \<open>
  What \<^verbatim>\<open>JSON.parse\<close> builds for a JSON tree: a fresh cell for every array and every
  object of the tree, the parts before the whole.
\<close>

fun alloc :: "jsval \<Rightarrow> heap \<Rightarrow> hval \<times> heap"
  and alloc_list :: "jsval list \<Rightarrow> heap \<Rightarrow> hval list \<times> heap"
  and alloc_fields :: "(string \<times> jsval) list \<Rightarrow> heap \<Rightarrow> (string \<times> hval) list \<times> heap" where
  "alloc JUndefined h = (HUndefined, h)"
| "alloc JNull h = (HNull, h)"
| "alloc (JBool b) h = (HBool b, h)"
| "alloc (JNum n) h = (HNum n, h)"
| "alloc (JStr s) h = (HStr s, h)"
| "alloc (JArr xs) h = (case alloc_list xs h of (vs, h') \<Rightarrow> (HRef (length h'), h' @ [CArr vs]))"
| "alloc (JObj kvs) h = (case alloc_fields kvs h of (fs, h') \<Rightarrow> (HRef (length h'), h' @ [CObj fs]))"
| "alloc_list [] h = ([], h)"
| "alloc_list (x # xs) h =
     (case alloc x h of (v, h1) \<Rightarrow> (case alloc_list xs h1 of (vs, h2) \<Rightarrow> (v # vs, h2)))"
| "alloc_fields [] h = ([], h)"
| "alloc_fields (kv # kvs) h =
     (case alloc (snd kv) h of (v, h1) \<Rightarrow>
        (case alloc_fields kvs h1 of (fs, h2) \<Rightarrow> ((fst kv, v) # fs, h2)))"

text \<open>
  The tree a value stands for in a heap: deep equality of two values is equality of
  their trees. The cells of a value are read below its own address, which is where
  \<open>alloc\<close> puts them; \<open>None\<close> for a reference that leads elsewhere.
\<close>

function reify :: "heap \<Rightarrow> hval \<Rightarrow> jsval option" where
  "reify h HUndefined = Some JUndefined"
| "reify h HNull = Some JNull"
| "reify h (HBool b) = Some (JBool b)"
| "reify h (HNum n) = Some (JNum n)"
| "reify h (HStr s) = Some (JStr s)"
| "reify h (HRef a) =
     (if a < length h then
        (case h ! a of
           CArr vs \<Rightarrow> map_option JArr (those (map (\<lambda>v. reify (take a h) v) vs))
         | CObj kvs \<Rightarrow>
             map_option (\<lambda>xs. JObj (zip (map fst kvs) xs))
               (those (map (\<lambda>kv. reify (take a h) (snd kv)) kvs)))
      else None)"
  by pat_completeness auto
termination
  by (relation "measure (\<lambda>(h, v). length h)") auto

text \<open>The addresses of the cells a value is made of.\<close>

function cells_of :: "heap \<Rightarrow> hval \<Rightarrow> addr list" where
  "cells_of h (HRef a) =
     (if a < length h then a # concat (map (\<lambda>v. cells_of (take a h) v) (children (h ! a)))
      else [])"
| "cells_of h HUndefined = []"
| "cells_of h HNull = []"
| "cells_of h (HBool b) = []"
| "cells_of h (HNum n) = []"
| "cells_of h (HStr s) = []"
  by pat_completeness auto
termination
  by (relation "measure (\<lambda>(h, v). length h)") auto

text \<open>
  \<^verbatim>\<open>structuredClone\<close> of a value that stands for a tree: the same tree in fresh
  cells. The payloads of the store come from \<^verbatim>\<open>JSON.parse\<close> and are trees; a value
  that stands for no tree is outside the model and reported as an error.
\<close>

definition structuredClone :: "heap \<Rightarrow> hval \<Rightarrow> js_error + hval \<times> heap" where
  "structuredClone h v = (case reify h v of None \<Rightarrow> Inl DataCloneError | Some t \<Rightarrow> Inr (alloc t h))"

fun h_truthy :: "hval \<Rightarrow> bool" where
  "h_truthy HUndefined = False"
| "h_truthy HNull = False"
| "h_truthy (HBool b) = b"
| "h_truthy (HNum n) = (n \<noteq> 0)"
| "h_truthy (HStr s) = (s \<noteq> [])"
| "h_truthy (HRef a) = True"

definition is_array :: "heap \<Rightarrow> hval \<Rightarrow> bool" where
  "is_array h v =
     (case v of
        HRef a \<Rightarrow> (case cell_at h a of Some (CArr vs) \<Rightarrow> True | _ \<Rightarrow> False)
      | _ \<Rightarrow> False)"

fun typeof :: "hval \<Rightarrow> string" where
  "typeof HUndefined = ''undefined''"
| "typeof HNull = ''object''"
| "typeof (HBool b) = ''boolean''"
| "typeof (HNum n) = ''number''"
| "typeof (HStr s) = ''string''"
| "typeof (HRef a) = ''object''"

section \<open>The store: data model and operations\<close>

text \<open>
  The dictionaries of the \<^verbatim>\<open>Store\<close> are created with \<^verbatim>\<open>Object.create(null)\<close>, so
  they have own properties only. Nothing in the repository fills \<^verbatim>\<open>schemas\<close>; a
  schema is taken as given, with the \<^verbatim>\<open>type\<close> it declares (\<open>None\<close> when it declares
  none).
\<close>

record schema =
  sch_type :: "string option"

record store =
  s_data :: "(string \<times> hval) list"
  s_computed :: "(string \<times> string) list"
  s_schemas :: "(string \<times> schema) list"
  s_heap :: heap

text \<open>
  A \<^verbatim>\<open>h6x-data\<close> node: its attributes, and its text as \<^verbatim>\<open>JSON.parse\<close> reads it
  (\<open>None\<close> when the text is not JSON and the call throws a SyntaxError).
\<close>

record data_node =
  dn_name :: "string option"
  dn_persist :: "string option"
  dn_schema :: "string option"
  dn_compute :: "string option"
  dn_content :: "jsval option"

datatype store_effect =
    ErrorFailedToLoad string js_error
  | WarnNotFound string
  | PersistToIndexedDB string hval
  | RemoveNode

definition own_prop :: "(string \<times> hval) list \<Rightarrow> string \<Rightarrow> hval" where
  "own_prop kvs k = (case map_of kvs k of None \<Rightarrow> HUndefined | Some v \<Rightarrow> v)"

text \<open>\<^verbatim>\<open>Store.validate(data, schema)\<close>: it returns \<^verbatim>\<open>true\<close> or throws.\<close>

definition store_validate :: "heap \<Rightarrow> hval \<Rightarrow> schema \<Rightarrow> js_error + bool" where
  "store_validate h data sch =
     (if sch_type sch = Some ''array'' \<and> \<not> is_array h data
        then Inl (Error ''Data must be an array'')
      else if sch_type sch = Some ''object'' \<and> typeof data \<noteq> ''object''
        then Inl (Error ''Data must be an object'')
      else Inr True)"

text \<open>
  \<^verbatim>\<open>Store.load(node)\<close>. \<open>load_body\<close> is the \<^verbatim>\<open>try\<close> block: \<open>Inl\<close> is what it
  throws. \<open>load\<close> adds the \<^verbatim>\<open>catch\<close>, which logs the error and returns; the store it
  leaves is the one before the call (the payload parsed before a throw is garbage).
\<close>

definition load_body :: "store \<Rightarrow> data_node \<Rightarrow> js_error + store \<times> store_effect list" where
  "load_body st node =
     (let name = prop_key (dn_name node) in
      if truthy_attr (dn_compute node)
      then Inr (st \<lparr> s_computed := AList.update name (the (dn_compute node)) (s_computed st) \<rparr>,
                [RemoveNode])
      else
        (case dn_content node of
           None \<Rightarrow> Inl SyntaxError
         | Some t \<Rightarrow>
             (case alloc t (s_heap st) of (payload, h) \<Rightarrow>
                (case (if truthy_attr (dn_schema node)
                       then (case map_of (s_schemas st) (the (dn_schema node)) of
                               None \<Rightarrow> Inr True
                             | Some sch \<Rightarrow> store_validate h payload sch)
                       else Inr True) of
                   Inl e \<Rightarrow> Inl e
                 | Inr ok \<Rightarrow>
                     Inr (st \<lparr> s_data := AList.update name payload (s_data st), s_heap := h \<rparr>,
                          (if dn_persist node = Some ''indexeddb''
                           then [PersistToIndexedDB name payload] else [])
                          @ [RemoveNode])))))"

definition load :: "store \<Rightarrow> data_node \<Rightarrow> js_error + store \<times> store_effect list" where
  "load st node =
     (case load_body st node of
        Inl e \<Rightarrow> Inr (st, [ErrorFailedToLoad (prop_key (dn_name node)) e])
      | Inr r \<Rightarrow> Inr r)"

text \<open>
  The two patterns of \<^verbatim>\<open>evalComputed\<close>, each searched with \<^verbatim>\<open>String.match\<close>: the
  first place of the text where the pattern matches. A group \<^verbatim>\<open>(\w+)\<close> is followed by
  a character that is not a word character, so it takes the whole run of word characters.
\<close>

definition filter_match_here :: "string \<Rightarrow> (string \<times> string \<times> string) option" where
  "filter_match_here s =
     (let dataName = takeWhile is_word s; r1 = dropWhile is_word s in
      if dataName = [] \<or> \<not> starts_with ''.filter('' r1 then None
      else
        let r2 = drop 8 r1; key = takeWhile is_word r2; r3 = dropWhile is_word r2 in
        if key = [] \<or> \<not> starts_with ''='' r3 then None
        else
          let r4 = drop 1 r3; val = takeWhile is_word r4; r5 = dropWhile is_word r4 in
          if val = [] \<or> \<not> starts_with '')'' r5 then None
          else Some (dataName, key, val))"

fun filter_match :: "string \<Rightarrow> (string \<times> string \<times> string) option" where
  "filter_match [] = None"
| "filter_match (c # cs) =
     (case filter_match_here (c # cs) of
        Some m \<Rightarrow> Some m
      | None \<Rightarrow> filter_match cs)"

definition count_match_here :: "string \<Rightarrow> string option" where
  "count_match_here s =
     (let dataName = takeWhile is_word s; r1 = dropWhile is_word s in
      if dataName = [] \<or> \<not> starts_with ''.count'' r1 then None else Some dataName)"

fun count_match :: "string \<Rightarrow> string option" where
  "count_match [] = None"
| "count_match (c # cs) =
     (case count_match_here (c # cs) of
        Some m \<Rightarrow> Some m
      | None \<Rightarrow> count_match cs)"

text \<open>
  \<^verbatim>\<open>item[key]\<close> as the filter compares it: a TypeError on \<^verbatim>\<open>null\<close> and
  \<^verbatim>\<open>undefined\<close>; an own property of an object; an element or the length of an array or
  a string. Inherited members are functions or objects, equal to no boolean and no
  string; they read as \<open>HUndefined\<close> here.
\<close>

definition get_prop :: "heap \<Rightarrow> hval \<Rightarrow> string \<Rightarrow> js_error + hval" where
  "get_prop h item key =
     (case item of
        HUndefined \<Rightarrow> Inl TypeError
      | HNull \<Rightarrow> Inl TypeError
      | HBool b \<Rightarrow> Inr HUndefined
      | HNum n \<Rightarrow> Inr HUndefined
      | HStr s \<Rightarrow>
          if key = ''length'' then Inr (HNum (int (length s)))
          else if is_index key \<and> parse_digits key < length s
            then Inr (HStr [s ! parse_digits key])
          else Inr HUndefined
      | HRef a \<Rightarrow>
          (case cell_at h a of
             None \<Rightarrow> Inr HUndefined
           | Some (CObj kvs) \<Rightarrow> Inr (own_prop kvs key)
           | Some (CArr vs) \<Rightarrow>
               if key = ''length'' then Inr (HNum (int (length vs)))
               else if is_index key \<and> parse_digits key < length vs
                 then Inr (vs ! parse_digits key)
               else Inr HUndefined))"

text \<open>
  The callback of the filter over the items in order; \<^verbatim>\<open>===\<close> between a property
  and a boolean or a string is equality of values.
\<close>

fun filter_items :: "heap \<Rightarrow> string \<Rightarrow> string \<Rightarrow> hval list \<Rightarrow> js_error + hval list" where
  "filter_items h key val [] = Inr []"
| "filter_items h key val (item # items) =
     (case get_prop h item key of
        Inl e \<Rightarrow> Inl e
      | Inr p \<Rightarrow>
          (case filter_items h key val items of
             Inl e \<Rightarrow> Inl e
           | Inr kept \<Rightarrow>
               Inr (if (if val = ''true'' then p = HBool True
                        else if val = ''false'' then p = HBool False
                        else p = HStr val)
                    then item # kept else kept)))"

text \<open>
  \<^verbatim>\<open>Store.evalComputed(expr)\<close>. The result of a filter is a new array of the kept
  items themselves; calling \<^verbatim>\<open>filter\<close> on a value that is not an array throws.
\<close>

definition evalComputed :: "store \<Rightarrow> string \<Rightarrow> js_error + hval \<times> store" where
  "evalComputed st expr =
     (case filter_match expr of
        Some (dataName, key, val) \<Rightarrow>
          (let data = own_prop (s_data st) dataName in
           if \<not> h_truthy data then Inr (HNull, st)
           else
             (case data of
                HRef a \<Rightarrow>
                  (case cell_at (s_heap st) a of
                     Some (CArr items) \<Rightarrow>
                       (case filter_items (s_heap st) key val items of
                          Inl e \<Rightarrow> Inl e
                        | Inr kept \<Rightarrow>
                            Inr (HRef (length (s_heap st)),
                                 st \<lparr> s_heap := s_heap st @ [CArr kept] \<rparr>))
                   | _ \<Rightarrow> Inl TypeError)
              | _ \<Rightarrow> Inl TypeError))
      | None \<Rightarrow>
          (case count_match expr of
             Some dataName \<Rightarrow>
               (let data = own_prop (s_data st) dataName in
                Inr (case data of
                       HRef a \<Rightarrow>
                         (case cell_at (s_heap st) a of
                            Some (CArr items) \<Rightarrow> HNum (int (length items))
                          | _ \<Rightarrow> HNum 0)
                     | _ \<Rightarrow> HNum 0,
                     st))
           | None \<Rightarrow> Inr (HNull, st)))"

text \<open>\<^verbatim>\<open>Store.get(name)\<close>.\<close>

definition get :: "store \<Rightarrow> string \<Rightarrow> js_error + hval \<times> store \<times> store_effect list" where
  "get st name =
     (case map_of (s_computed st) name of
        Some (c # cs) \<Rightarrow>
          (case evalComputed st (c # cs) of
             Inl e \<Rightarrow> Inl e
           | Inr (v, st') \<Rightarrow> Inr (v, st', []))
      | _ \<Rightarrow>
          if \<not> h_truthy (own_prop (s_data st) name) then Inr (HNull, st, [WarnNotFound name])
          else
            (case structuredClone (s_heap st) (own_prop (s_data st) name) of
               Inl e \<Rightarrow> Inl e
             | Inr (v, h) \<Rightarrow> Inr (v, st \<lparr> s_heap := h \<rparr>, [])))"

text \<open>Reading the store and its heap in the statements below.\<close>

definition in_heap :: "heap \<Rightarrow> hval \<Rightarrow> bool" where
  "in_heap h v = (case v of HRef a \<Rightarrow> a < length h | _ \<Rightarrow> True)"

text \<open>Every cell of the value was allocated after the heap \<open>h\<close>.\<close>

definition fresh_in :: "heap \<Rightarrow> heap \<Rightarrow> hval \<Rightarrow> bool" where
  "fresh_in h h' v = list_all (\<lambda>b. length h \<le> b) (cells_of h' v)"

text \<open>Whether \<^verbatim>\<open>this.computed[name]\<close> is truthy.\<close>

definition computed_binding :: "store \<Rightarrow> string \<Rightarrow> bool" where
  "computed_binding st name =
     (case map_of (s_computed st) name of Some (c # cs) \<Rightarrow> True | _ \<Rightarrow> False)"



text \<open>A JSON tree as \<^verbatim>\<open>Array.isArray\<close> and \<^verbatim>\<open>typeof\<close> see the value built for it.\<close>

definition json_is_array :: "jsval \<Rightarrow> bool" where
  "json_is_array t = (case t of JArr xs \<Rightarrow> True | _ \<Rightarrow> False)"

definition json_typeof :: "jsval \<Rightarrow> string" where
  "json_typeof t =
     (case t of
        JUndefined \<Rightarrow> ''undefined''
      | JNull \<Rightarrow> ''object''
      | JBool b \<Rightarrow> ''boolean''
      | JNum n \<Rightarrow> ''number''
      | JStr s \<Rightarrow> ''string''
      | JArr xs \<Rightarrow> ''object''
      | JObj kvs \<Rightarrow> ''object'')"

definition mismatch_message :: "schema \<Rightarrow> string" where
  "mismatch_message sch =
     (if sch_type sch = Some ''array'' then ''Data must be an array''
      else ''Data must be an object'')"

text \<open>Concrete input: an empty store, a raw data node, and the collections of the examples.\<close>

definition empty_store :: store where
  "empty_store = \<lparr> s_data = [], s_computed = [], s_schemas = [], s_heap = [] \<rparr>"

definition raw_node :: "string \<Rightarrow> jsval \<Rightarrow> data_node" where
  "raw_node name t =
     \<lparr> dn_name = Some name, dn_persist = None, dn_schema = None, dn_compute = None,
       dn_content = Some t \<rparr>"

definition loaded :: "store \<Rightarrow> data_node \<Rightarrow> store" where
  "loaded st node = (case load st node of Inl e \<Rightarrow> st | Inr r \<Rightarrow> fst r)"

definition users_payload :: jsval where
  "users_payload =
     JArr [JObj [(''id'', JNum 1), (''active'', JBool True)],
           JObj [(''id'', JNum 2), (''active'', JBool False)]]"

definition tasks_payload :: jsval where
  "tasks_payload =
     JArr [JStr ''plan'', JStr ''build'', JStr ''test'', JStr ''ship'', JStr ''rest'']"

text \<open>
  The store after the registration of the users and of the tasks, and a store with a
  schema \<^verbatim>\<open>list\<close> that declares the type \<^verbatim>\<open>array\<close>, in which an empty array is
  registered as \<^verbatim>\<open>settings\<close>; then a node that registers an object under the same
  name and schema.
\<close>

definition users_store :: store where
  "users_store = loaded empty_store (raw_node ''users'' users_payload)"

definition tasks_store :: store where
  "tasks_store =
     loaded (loaded empty_store (raw_node ''tasks'' tasks_payload)) (raw_node ''done'' (JArr []))"




definition list_schema_store :: store where
  "list_schema_store =
     \<lparr> s_data = [(''settings'', HRef 0)], s_computed = [],
       s_schemas = [(''list'', \<lparr> sch_type = Some ''array'' \<rparr>)], s_heap = [CArr []] \<rparr>"

definition settings_node :: data_node where
  "settings_node =
     \<lparr> dn_name = Some ''settings'', dn_persist = None, dn_schema = Some ''list'',
       dn_compute = None, dn_content = Some (JObj [(''theme'', JStr ''dark'')]) \<rparr>"

section \<open>Properties of the component parser\<close>

lemma length_extractProtons:
  "length (fst (extractProtons br node)) = length (an_protons node)"
  by (simp add: extractProtons_def Let_def)

lemma remote_loads_no_advisory: "\<not> advisory_emitted (concat (map remote_loads ps))"
  by (induction ps) (auto simp: advisory_emitted_def remote_loads_def)

lemma extractProtons_no_advisory: "\<not> advisory_emitted (snd (extractProtons br node))"
  by (simp add: extractProtons_def Let_def remote_loads_no_advisory del: map_map)

lemma advisory_append:
  "advisory_emitted (xs @ ys) = (advisory_emitted xs \<or> advisory_emitted ys)"
  by (simp add: advisory_emitted_def)

text \<open>
  The stability \<^verbatim>\<open>parseAtom\<close> derives depends on the two counts only: it is the
  quotient when there is a rule, and \<^verbatim>\<open>1.0\<close> when there is none.
\<close>

lemma stability_parseAtom:
  "stability (fst (parseAtom br node)) =
     compute_stability (length (an_neutrons node)) (length (an_protons node))"
  by (simp add: parseAtom_def extractProtons_def extractNeutrons_def Let_def)

lemma advisory_parseAtom:
  "advisory_emitted (snd (parseAtom br node)) \<longleftrightarrow>
     (num_lt (compute_stability (length (an_neutrons node)) (length (an_protons node))) 1
      \<and> length (an_protons node) > 2)"
proof -
  obtain ps loads where e: "extractProtons br node = (ps, loads)"
    by (cases "extractProtons br node")
  have l: "length ps = length (an_protons node)"
    using length_extractProtons [of br node] e by simp
  have n: "\<not> advisory_emitted loads"
    using extractProtons_no_advisory [of br node] e by simp
  show ?thesis
    using n l by (simp add: parseAtom_def e Let_def advisory_append extractNeutrons_def)
      (simp add: advisory_emitted_def)
qed

text \<open>
  In terms of the counts: the advisory is emitted exactly when there is at least one
  rule, fewer rules than data sources, and more than two data sources.
\<close>

lemma advisory_counts:
  "advisory_emitted (snd (parseAtom br node)) \<longleftrightarrow>
     (0 < length (an_neutrons node) \<and> length (an_neutrons node) < length (an_protons node)
      \<and> 2 < length (an_protons node))"
  by (auto simp add: advisory_parseAtom compute_stability_def js_div_def)

text \<open>
  Claim C4 (the advisory is emitted if and only if ruleCount / sourceCount < 1.0 and
  sourceCount > 2). The code departs from it for a component with data sources and no
  rule: with three data sources and zero rules the quotient 0 / 3 is below 1.0 and the
  source count is above 2, and \<^verbatim>\<open>parseAtom\<close> emits no advisory, because it sets the
  stability to 1.0 whenever there is no rule. The parse returns the component all the
  same.
\<close>

theorem parseAtom_no_rule_no_advisory:
  "advisory_emitted (snd (parseAtom br
      \<lparr> an_name = Some ''form'',
        an_protons = [local_source ''a'', local_source ''b'', local_source ''c''],
        an_neutrons = [], an_electrons = [] \<rparr>)) = False
   \<and> num_lt (js_div 0 3) 1 = True
   \<and> atomicNumber (fst (parseAtom br
      \<lparr> an_name = Some ''form'',
        an_protons = [local_source ''a'', local_source ''b'', local_source ''c''],
        an_neutrons = [], an_electrons = [] \<rparr>)) = 3"
  by (simp add: advisory_counts js_div_def) (simp add: parseAtom_def extractProtons_def Let_def)

text \<open>
  Claim C5 (the stability equals ruleCount / sourceCount, is 1.0 when sourceCount is
  zero, and the division by zero is avoided). The guard of \<^verbatim>\<open>parseAtom\<close> tests the
  rule count, not the source count: with no data source and one rule the division by
  zero is carried out and the stability is \<^verbatim>\<open>Infinity\<close>, not 1.0; with one data
  source and no rule the stability is 1.0, not the quotient 0 / 1.
\<close>

theorem parseAtom_stability_guard:
  "stability (fst (parseAtom br
      \<lparr> an_name = Some ''form'', an_protons = [],
        an_neutrons = [validate_rule ''email: required''], an_electrons = [] \<rparr>)) = Infinity
   \<and> stability (fst (parseAtom br
      \<lparr> an_name = Some ''form'', an_protons = [local_source ''a''],
        an_neutrons = [], an_electrons = [] \<rparr>)) = Finite 1
   \<and> js_div 0 1 = Finite 0"
  by (simp add: stability_parseAtom compute_stability_def js_div_def)

section \<open>Properties of the rule parser\<close>

lemma split_on_no_sep: "sep \<notin> set s \<Longrightarrow> split_on sep s = [s]"
  by (induction s) auto

lemma field_line_no_colon: "CHR '':'' \<notin> set line \<Longrightarrow> field_line rules line = rules"
  by (simp add: field_line_def split_on_no_sep)

lemma compute_line_no_eq: "CHR ''='' \<notin> set line \<Longrightarrow> compute_line rules line = rules"
  by (simp add: compute_line_def split_on_no_sep)

lemma foldl_field_line_filter:
  "foldl field_line rules ls = foldl field_line rules (filter (\<lambda>l. CHR '':'' \<in> set l) ls)"
  by (induction ls arbitrary: rules) (simp_all add: field_line_no_colon)

lemma foldl_compute_line_filter:
  "foldl compute_line rules ls = foldl compute_line rules (filter (\<lambda>l. CHR ''='' \<in> set l) ls)"
  by (induction ls arbitrary: rules) (simp_all add: compute_line_no_eq)

text \<open>
  Claim C10. \<^verbatim>\<open>parseNeutronRules\<close> is a total function of the rule text and the rule
  kind (\<open>None\<close> is a missing \<^verbatim>\<open>type\<close> attribute): every operation it applies
  (\<^verbatim>\<open>split\<close>, \<^verbatim>\<open>trim\<close>, destructuring an array, a property assignment) is defined on
  every string, so no branch of the model is an error. Its result is the one obtained
  from the lines that have a separator alone: a line of kind \<^verbatim>\<open>validate\<close> or
  \<^verbatim>\<open>transform\<close> with no colon, and a line of kind \<^verbatim>\<open>compute\<close> with no equals
  sign, contribute no entry. Any other kind yields the empty rule set.
\<close>

theorem parseNeutronRules_lines:
  "parseNeutronRules content type =
     (if type = Some ''validate'' \<or> type = Some ''transform''
      then foldl field_line [] (filter (\<lambda>l. CHR '':'' \<in> set l) (split_on CHR 0x0A content))
      else if type = Some ''compute''
      then foldl compute_line [] (filter (\<lambda>l. CHR ''='' \<in> set l) (split_on CHR 0x0A content))
      else [])"
  using foldl_field_line_filter [of "[]" "split_on CHR 0x0A content"]
    foldl_compute_line_filter [of "[]" "split_on CHR 0x0A content"]
  by (simp add: parseNeutronRules_def)

section \<open>Properties of rule application\<close>

text \<open>
  On the undefined value every rule that starts with \<^verbatim>\<open>minLength\<close> throws: with no
  digit in the rule the match is \<^verbatim>\<open>null\<close>, and with a digit \<^verbatim>\<open>value.length\<close> is
  read of \<^verbatim>\<open>undefined\<close>.
\<close>

lemma check_rule_minLength_undefined:
  "starts_with ''minLength'' rule \<Longrightarrow> check_rule (Member JUndefined) rule = Inl TypeError"
  by (auto simp add: check_rule_def get_length_def starts_with_def split: option.splits)

text \<open>
  Claim C6 (a rule on an absent field fails the presence rules, and the type-dependent
  rules are skipped on the undefined value, so validation never faults). The presence
  rule behaves as claimed: \<^verbatim>\<open>required\<close> on an absent field records an error. The
  rule \<^verbatim>\<open>minLength(8)\<close> is not skipped: \<^verbatim>\<open>validate\<close> reads \<^verbatim>\<open>value.length\<close> of the
  undefined value and throws a TypeError.
\<close>

theorem nucleus_validate_absent_field:
  "nucleus_validate [] (make_neutron (0, validate_rule ''password: minLength(8)''))
     = Inl TypeError
   \<and> nucleus_validate [] (make_neutron (0, validate_rule ''email: required''))
     = Inr \<lparr> valid = False, errors = [(''email'', [''This field is required''])] \<rparr>"
  by code_simp

section \<open>Properties of the action protocol\<close>

text \<open>
  One step of the gathering leaves every own property but the one of its local key, and
  the prototype unless its local key is \<^verbatim>\<open>__proto__\<close>.
\<close>

lemma own_gather_step_other:
  "p_local p \<noteq> Some k \<Longrightarrow> map_of (o_own (gather_step data p)) k = map_of (o_own data) k"
  by (cases "p_local p")
     (auto simp add: gather_step_def set_plain_def update_conv' truthy_attr_def
        split: jsval.splits)

lemma own_gather_step_same:
  "truthy_attr (p_local p) \<Longrightarrow> p_local p = Some k \<Longrightarrow> k \<noteq> ''__proto__'' \<Longrightarrow>
   map_of (o_own (gather_step data p)) k = Some (p_data p)"
  by (simp add: gather_step_def set_plain_def update_conv')

lemma own_gather_step_falsy:
  "\<not> truthy_attr (p_local p) \<Longrightarrow> gather_step data p = data"
  by (simp add: gather_step_def)

lemma proto_gather_step:
  "p_local p \<noteq> Some ''__proto__'' \<Longrightarrow> o_proto (gather_step data p) = o_proto data"
  by (cases "p_local p") (auto simp add: gather_step_def set_plain_def truthy_attr_def)

lemma own_foldl_gather_none:
  "sources_with_key k ps = [] \<Longrightarrow>
   map_of (o_own (foldl gather_step data ps)) k = map_of (o_own data) k"
proof (induction ps arbitrary: data)
  case Nil
  then show ?case by simp
next
  case (Cons p ps)
  from Cons.prems have rest: "sources_with_key k ps = []"
    and here: "\<not> (truthy_attr (p_local p) \<and> p_local p = Some k)"
    by (auto simp add: sources_with_key_def split: if_splits)
  have "map_of (o_own (gather_step data p)) k = map_of (o_own data) k"
  proof (cases "truthy_attr (p_local p)")
    case True
    with here have "p_local p \<noteq> Some k" by simp
    then show ?thesis by (rule own_gather_step_other)
  next
    case False
    then show ?thesis by (simp add: own_gather_step_falsy)
  qed
  with Cons.IH [OF rest, of "gather_step data p"] show ?case by simp
qed

lemma own_foldl_gather_last:
  "k \<noteq> ''__proto__'' \<Longrightarrow> sources_with_key k ps \<noteq> [] \<Longrightarrow>
   map_of (o_own (foldl gather_step data ps)) k = Some (p_data (last (sources_with_key k ps)))"
proof (induction ps arbitrary: data)
  case Nil
  then show ?case by (simp add: sources_with_key_def)
next
  case (Cons p ps)
  show ?case
  proof (cases "sources_with_key k ps = []")
    case True
    with Cons.prems(2) have here: "truthy_attr (p_local p)" "p_local p = Some k"
      and all: "sources_with_key k (p # ps) = [p]"
      by (auto simp add: sources_with_key_def split: if_splits)
    have "map_of (o_own (foldl gather_step (gather_step data p) ps)) k
        = map_of (o_own (gather_step data p)) k"
      by (rule own_foldl_gather_none [OF True])
    also have "\<dots> = Some (p_data p)"
      by (rule own_gather_step_same [OF here Cons.prems(1)])
    finally show ?thesis by (simp add: all)
  next
    case False
    then have "last (sources_with_key k (p # ps)) = last (sources_with_key k ps)"
      by (simp add: sources_with_key_def)
    with Cons.IH [OF Cons.prems(1) False, of "gather_step data p"] show ?thesis by simp
  qed
qed

lemma proto_foldl_gather:
  "sources_with_key ''__proto__'' ps = [] \<Longrightarrow>
   o_proto (foldl gather_step data ps) = o_proto data"
proof (induction ps arbitrary: data)
  case Nil
  then show ?case by simp
next
  case (Cons p ps)
  from Cons.prems have rest: "sources_with_key ''__proto__'' ps = []"
    and here: "\<not> (truthy_attr (p_local p) \<and> p_local p = Some ''__proto__'')"
    by (auto simp add: sources_with_key_def split: if_splits)
  have "o_proto (gather_step data p) = o_proto data"
  proof (cases "truthy_attr (p_local p)")
    case True
    with here have "p_local p \<noteq> Some ''__proto__''" by simp
    then show ?thesis by (rule proto_gather_step)
  next
    case False
    then show ?thesis by (simp add: own_gather_step_falsy)
  qed
  with Cons.IH [OF rest, of "gather_step data p"] show ?case by simp
qed

text \<open>
  A data source whose local key is \<^verbatim>\<open>__proto__\<close> adds no own property: its data
  becomes the prototype of the gathered object, which then reads the properties of that
  data as its own.
\<close>

lemma gatherProtonData_proto_key:
  "o_own (gatherProtonData proto_key_atom) = [(''k'', JNum 2)]
   \<and> o_proto (gatherProtonData proto_key_atom) = ValueProto (JObj [(''admin'', JBool True)])
   \<and> read_plain (gatherProtonData proto_key_atom) ''admin'' = Member (JBool True)"
  by code_simp

text \<open>
  Claim C9, as stated (the gathered object maps each data source's local key to that
  source's resolved data), fails when two data sources share a local key: the object
  holds the data of the later one. Here the first source has received the response of
  its remote source and the second, local only, holds \<^verbatim>\<open>null\<close>; the gathered object
  maps the key of the first source to \<^verbatim>\<open>null\<close>.
\<close>

theorem gatherProtonData_shared_key:
  "map_of (o_own (gatherProtonData shared_key_atom)) ''profile'' = Some JNull
   \<and> p_local (hd (protons shared_key_atom)) = Some ''profile''
   \<and> p_data (hd (protons shared_key_atom)) = JObj [(''name'', JStr ''Ada'')]"
  by code_simp

text \<open>
  Claim C9, amended: for every component and every key other than \<^verbatim>\<open>__proto__\<close>, the
  own properties of the gathered object map the key to the resolved data of the last
  data source that declares it as its (non-empty) local key. For every key, \<^verbatim>\<open>__proto__\<close>
  included, the object has no own property under a key that no data source declares; a
  data source with no local key declares none, so it contributes nothing. Unless a data
  source declares the local key \<^verbatim>\<open>__proto__\<close>, the prototype of the gathered object is
  \<^verbatim>\<open>Object.prototype\<close>.
\<close>

theorem gatherProtonData_last_source:
  "(k \<noteq> ''__proto__'' \<longrightarrow>
      map_of (o_own (gatherProtonData a)) k =
        (if sources_with_key k (protons a) = [] then None
         else Some (p_data (last (sources_with_key k (protons a))))))
   \<and> (sources_with_key k (protons a) = [] \<longrightarrow> map_of (o_own (gatherProtonData a)) k = None)
   \<and> (sources_with_key ''__proto__'' (protons a) = [] \<longrightarrow>
        o_proto (gatherProtonData a) = ObjectProto)"
proof -
  have none: "sources_with_key k (protons a) = [] \<Longrightarrow>
      map_of (o_own (gatherProtonData a)) k = None"
    using own_foldl_gather_none [of k "protons a" empty_object]
    by (simp add: gatherProtonData_def empty_object_def)
  have some: "k \<noteq> ''__proto__'' \<Longrightarrow> sources_with_key k (protons a) \<noteq> [] \<Longrightarrow>
      map_of (o_own (gatherProtonData a)) k
        = Some (p_data (last (sources_with_key k (protons a))))"
    using own_foldl_gather_last [of k "protons a" empty_object]
    by (simp add: gatherProtonData_def)
  have proto: "sources_with_key ''__proto__'' (protons a) = [] \<Longrightarrow>
      o_proto (gatherProtonData a) = ObjectProto"
    using proto_foldl_gather [of "protons a" empty_object]
    by (simp add: gatherProtonData_def empty_object_def)
  from none some proto show ?thesis by simp
qed

theorem gatherProtonData_last_source_witness:
  "map_of (o_own (gatherProtonData proto_key_atom)) ''k'' = Some (JNum 2)
   \<and> map_of (o_own (gatherProtonData proto_key_atom)) ''email'' = None
   \<and> o_proto (gatherProtonData (contact_form ''email: required'' (JStr ''ada@example.org'')))
       = ObjectProto"
proof -
  have declared: "sources_with_key ''k'' (protons proto_key_atom)
      = [keyed_source ''k'' (JNum 1), keyed_source ''k'' (JNum 2)]"
    by code_simp
  have undeclared: "sources_with_key ''email'' (protons proto_key_atom) = []"
    by code_simp
  have plain: "sources_with_key ''__proto__''
      (protons (contact_form ''email: required'' (JStr ''ada@example.org''))) = []"
    by code_simp
  have key: "''k'' \<noteq> ''__proto__''"
    by simp
  have latest: "p_data (keyed_source ''k'' (JNum 2)) = JNum 2"
    by (simp add: keyed_source_def)
  have first: "map_of (o_own (gatherProtonData proto_key_atom)) ''k'' = Some (JNum 2)"
    using gatherProtonData_last_source [of "''k''" proto_key_atom] key
    by (simp add: declared latest)
  have second: "map_of (o_own (gatherProtonData proto_key_atom)) ''email'' = None"
    using gatherProtonData_last_source [of "''email''" proto_key_atom] undeclared
    by simp
  have third: "o_proto (gatherProtonData (contact_form ''email: required''
      (JStr ''ada@example.org''))) = ObjectProto"
    using gatherProtonData_last_source [of "''k''"
        "contact_form ''email: required'' (JStr ''ada@example.org'')"] plain
    by simp
  from first second third show ?thesis by simp
qed










section \<open>Properties of the heap\<close>

lemma alloc_extends:
  "alloc t h = (v, h') \<Longrightarrow> \<exists>ext. h' = h @ ext"
  "alloc_list xs h = (vs, h') \<Longrightarrow> \<exists>ext. h' = h @ ext"
  "alloc_fields kvs h = (fs, h') \<Longrightarrow> \<exists>ext. h' = h @ ext"
proof (induction t h and xs h and kvs h arbitrary: v h' and vs h' and fs h'
    rule: alloc_alloc_list_alloc_fields.induct)
  case (6 xs h)
  then show ?case by (fastforce split: prod.splits)
next
  case (7 kvs h)
  then show ?case by (fastforce split: prod.splits)
next
  case (9 x xs h)
  then show ?case by (fastforce split: prod.splits)
next
  case (11 kv kvs h)
  then show ?case by (fastforce split: prod.splits)
qed auto

lemma reify_append:
  "a < length h \<Longrightarrow> reify (h @ ext) (HRef a) = reify h (HRef a)"
  by (simp add: nth_append split: cell.splits)

lemma reify_Some_append: "reify h v = Some t \<Longrightarrow> reify (h @ ext) v = Some t"
  by (cases v) (auto simp add: nth_append split: if_splits cell.splits)

lemma reify_local:
  assumes "take (Suc a) h1 = take (Suc a) h2"
  shows "reify h1 (HRef a) = reify h2 (HRef a)"
proof (cases "a < length h1")
  case True
  from assms have "length (take (Suc a) h1) = length (take (Suc a) h2)" by simp
  with True have l2: "a < length h2" by simp
  from assms have "take (Suc a) h1 ! a = take (Suc a) h2 ! a" by simp
  then have n: "h1 ! a = h2 ! a" by simp
  from assms have "take a (take (Suc a) h1) = take a (take (Suc a) h2)" by simp
  then have t: "take a h1 = take a h2" by (simp add: min_def)
  show ?thesis using True l2 n t by (simp split: cell.splits)
next
  case False
  from assms have "length (take (Suc a) h1) = length (take (Suc a) h2)" by simp
  with False have "\<not> a < length h2" by (simp add: min_def split: if_splits)
  with False show ?thesis by simp
qed

lemma those_map_reify_append:
  "those (map (\<lambda>v. reify h v) vs) = Some xs \<Longrightarrow> those (map (\<lambda>v. reify (h @ ext) v) vs) = Some xs"
proof (induction vs arbitrary: xs)
  case Nil
  then show ?case by simp
next
  case (Cons v vs)
  then show ?case by (auto split: option.splits simp: reify_Some_append)
qed

lemma alloc_reify:
  "alloc t h = (v, h') \<Longrightarrow> reify h' v = Some t"
  "alloc_list xs h = (vs, h') \<Longrightarrow> those (map (\<lambda>v. reify h' v) vs) = Some xs"
  "alloc_fields kvs h = (fs, h') \<Longrightarrow>
     map fst fs = map fst kvs \<and> those (map (\<lambda>kv. reify h' (snd kv)) fs) = Some (map snd kvs)"
proof (induction t h and xs h and kvs h arbitrary: v h' and vs h' and fs h'
    rule: alloc_alloc_list_alloc_fields.induct)
  case (6 xs h)
  then show ?case by (auto split: prod.splits)
next
  case (7 kvs h)
  then show ?case by (auto split: prod.splits simp: zip_map_fst_snd)
next
  case (9 x xs h)
  obtain v1 h1 where a1: "alloc x h = (v1, h1)" by (cases "alloc x h")
  obtain vs2 h2 where a2: "alloc_list xs h1 = (vs2, h2)" by (cases "alloc_list xs h1")
  from alloc_extends(2) [OF a2] obtain ext where e: "h2 = h1 @ ext" by blast
  from 9 a1 a2 have r: "vs = v1 # vs2" "h' = h2" by auto
  have "reify h1 v1 = Some x" using "9.IH"(1) [OF a1] .
  then have "reify h2 v1 = Some x" unfolding e by (rule reify_Some_append)
  moreover have "those (map (\<lambda>v. reify h2 v) vs2) = Some xs"
    using "9.IH"(2) a1 a2 by simp
  ultimately show ?case using r by simp
next
  case (11 kv kvs h)
  obtain v1 h1 where a1: "alloc (snd kv) h = (v1, h1)" by (cases "alloc (snd kv) h")
  obtain fs2 h2 where a2: "alloc_fields kvs h1 = (fs2, h2)" by (cases "alloc_fields kvs h1")
  from alloc_extends(3) [OF a2] obtain ext where e: "h2 = h1 @ ext" by blast
  from 11 a1 a2 have r: "fs = (fst kv, v1) # fs2" "h' = h2" by auto
  have "reify h1 v1 = Some (snd kv)" using "11.IH"(1) [OF a1] .
  then have "reify h2 v1 = Some (snd kv)" unfolding e by (rule reify_Some_append)
  moreover have "map fst fs2 = map fst kvs \<and>
      those (map (\<lambda>kv. reify h2 (snd kv)) fs2) = Some (map snd kvs)"
    using "11.IH"(2) a1 a2 by simp
  ultimately show ?case using r by simp
qed auto


lemma alloc_in_heap:
  "alloc t h = (v, h') \<Longrightarrow> in_heap h' v"
  by (cases t) (auto simp: in_heap_def split: prod.splits)

lemma alloc_length:
  "alloc t h = (v, h') \<Longrightarrow> length h \<le> length h'"
  using alloc_extends(1) by fastforce

lemma alloc_list_length:
  "alloc_list xs h = (vs, h') \<Longrightarrow> length h \<le> length h'"
  using alloc_extends(2) by fastforce

lemma alloc_fields_length:
  "alloc_fields kvs h = (fs, h') \<Longrightarrow> length h \<le> length h'"
  using alloc_extends(3) by fastforce

lemma cells_of_append:
  "in_heap h v \<Longrightarrow> cells_of (h @ ext) v = cells_of h v"
  by (cases v) (simp_all add: in_heap_def nth_append)

lemma cells_of_below: "list_all (\<lambda>b. b < length h) (cells_of h v)"
proof (induction h v rule: cells_of.induct)
  case (1 h a)
  show ?case
  proof (cases "a < length h")
    case True
    have "list_all (\<lambda>b. b < length h) (cells_of (take a h) v)" if "v \<in> set (children (h ! a))" for v
      using "1.IH" [OF True that] True by (auto simp: list_all_iff)
    then show ?thesis using True by (auto simp: list_all_iff)
  next
    case False
    then show ?thesis by simp
  qed
qed simp_all

lemma alloc_fresh:
  "alloc t h = (v, h') \<Longrightarrow> fresh_in h h' v"
  "alloc_list xs h = (vs, h') \<Longrightarrow> list_all (\<lambda>v. in_heap h' v \<and> fresh_in h h' v) vs"
  "alloc_fields kvs h = (fs, h') \<Longrightarrow> list_all (\<lambda>v. in_heap h' v \<and> fresh_in h h' v) (map snd fs)"
proof (induction t h and xs h and kvs h arbitrary: v h' and vs h' and fs h'
    rule: alloc_alloc_list_alloc_fields.induct)
  case (6 xs h)
  obtain vs h1 where a: "alloc_list xs h = (vs, h1)" by (cases "alloc_list xs h")
  from 6 a have r: "v = HRef (length h1)" "h' = h1 @ [CArr vs]" by auto
  have l: "length h \<le> length h1" using alloc_list_length [OF a] .
  have "list_all (\<lambda>v. in_heap h1 v \<and> fresh_in h h1 v) vs" using "6.IH" [OF a] .
  then have "list_all (\<lambda>b. length h \<le> b) (concat (map (cells_of h1) vs))"
    by (auto simp: list_all_iff fresh_in_def)
  then show ?case using l by (simp add: r fresh_in_def children_def)
next
  case (7 kvs h)
  obtain fs h1 where a: "alloc_fields kvs h = (fs, h1)" by (cases "alloc_fields kvs h")
  from 7 a have r: "v = HRef (length h1)" "h' = h1 @ [CObj fs]" by auto
  have l: "length h \<le> length h1" using alloc_fields_length [OF a] .
  have "list_all (\<lambda>v. in_heap h1 v \<and> fresh_in h h1 v) (map snd fs)" using "7.IH" [OF a] .
  then have "list_all (\<lambda>b. length h \<le> b) (concat (map (cells_of h1) (map snd fs)))"
    by (auto simp: list_all_iff fresh_in_def)
  then show ?case using l by (simp add: r fresh_in_def children_def)
next
  case (9 x xs h)
  obtain v1 h1 where a1: "alloc x h = (v1, h1)" by (cases "alloc x h")
  obtain vs2 h2 where a2: "alloc_list xs h1 = (vs2, h2)" by (cases "alloc_list xs h1")
  from alloc_extends(2) [OF a2] obtain ext where e: "h2 = h1 @ ext" by blast
  from 9 a1 a2 have r: "vs = v1 # vs2" "h' = h2" by auto
  have i1: "in_heap h1 v1" using alloc_in_heap [OF a1] .
  have f1: "fresh_in h h1 v1" using "9.IH"(1) [OF a1] .
  have "in_heap h2 v1" using i1 by (cases v1) (auto simp: in_heap_def e)
  moreover have "fresh_in h h2 v1" using f1 cells_of_append [OF i1, of ext] by (simp add: fresh_in_def e)
  moreover have "list_all (\<lambda>v. in_heap h2 v \<and> fresh_in h1 h2 v) vs2"
    using "9.IH"(2) a1 a2 by simp
  then have "list_all (\<lambda>v. in_heap h2 v \<and> fresh_in h h2 v) vs2"
    using alloc_length [OF a1] by (fastforce simp: list_all_iff fresh_in_def)
  ultimately show ?case using r by simp
next
  case (11 kv kvs h)
  obtain v1 h1 where a1: "alloc (snd kv) h = (v1, h1)" by (cases "alloc (snd kv) h")
  obtain fs2 h2 where a2: "alloc_fields kvs h1 = (fs2, h2)" by (cases "alloc_fields kvs h1")
  from alloc_extends(3) [OF a2] obtain ext where e: "h2 = h1 @ ext" by blast
  from 11 a1 a2 have r: "fs = (fst kv, v1) # fs2" "h' = h2" by auto
  have i1: "in_heap h1 v1" using alloc_in_heap [OF a1] .
  have f1: "fresh_in h h1 v1" using "11.IH"(1) [OF a1] .
  have "in_heap h2 v1" using i1 by (cases v1) (auto simp: in_heap_def e)
  moreover have "fresh_in h h2 v1" using f1 cells_of_append [OF i1, of ext] by (simp add: fresh_in_def e)
  moreover have "list_all (\<lambda>v. in_heap h2 v \<and> fresh_in h1 h2 v) (map snd fs2)"
    using "11.IH"(2) a1 a2 by simp
  then have "list_all (\<lambda>v. in_heap h2 v \<and> fresh_in h h2 v) (map snd fs2)"
    using alloc_length [OF a1] by (fastforce simp: list_all_iff fresh_in_def)
  ultimately show ?case using r by simp
qed (simp_all add: fresh_in_def)

lemma reify_above:
  assumes "a < length h" and "take (length h) h2 = h"
  shows "reify h2 (HRef a) = reify h (HRef a)"
proof -
  have "take (Suc a) h2 = take (Suc a) (take (length h) h2)"
    using assms(1) by (simp add: min_def)
  then have "take (Suc a) h2 = take (Suc a) h" by (simp only: assms(2))
  then show ?thesis by (rule reify_local)
qed

section \<open>Properties of the expression patterns\<close>

lemma not_word_chars [simp]:
  "\<not> is_word CHR ''.''" "\<not> is_word CHR ''(''" "\<not> is_word CHR ''=''" "\<not> is_word CHR '')''"
  by (simp_all add: is_word_def is_digit_def)

lemma takeWhile_word:
  "list_all is_word w \<Longrightarrow> \<not> is_word x \<Longrightarrow> takeWhile is_word (w @ x # r) = w"
  by (induction w) auto

lemma dropWhile_word:
  "list_all is_word w \<Longrightarrow> \<not> is_word x \<Longrightarrow> dropWhile is_word (w @ x # r) = x # r"
  by (induction w) auto



lemma filter_match_here_no_paren: "CHR ''('' \<notin> set s \<Longrightarrow> filter_match_here s = None"
proof -
  assume n: "CHR ''('' \<notin> set s"
  have "\<not> starts_with ''.filter('' (dropWhile is_word s)"
  proof
    assume "starts_with ''.filter('' (dropWhile is_word s)"
    then have e: "take (length ''.filter('') (dropWhile is_word s) = ''.filter(''"
      unfolding starts_with_def .
    have m: "CHR ''('' \<in> set ''.filter(''" by simp
    from e m have "CHR ''('' \<in> set (take (length ''.filter('') (dropWhile is_word s))"
      by (simp only:)
    then have "CHR ''('' \<in> set (dropWhile is_word s)" by (rule in_set_takeD)
    then have "CHR ''('' \<in> set s" by (rule set_dropWhileD)
    with n show False by simp
  qed
  then show ?thesis by (simp add: filter_match_here_def Let_def)
qed

lemma filter_match_no_paren: "CHR ''('' \<notin> set s \<Longrightarrow> filter_match s = None"
  by (induction s) (simp_all add: filter_match_here_no_paren)

lemma word_no_paren: "list_all is_word c \<Longrightarrow> CHR ''('' \<notin> set c"
  by (induction c) auto

lemma count_match_exact:
  assumes "c \<noteq> []" "list_all is_word c"
  shows "count_match (c @ ''.count'') = Some c"
proof -
  obtain x xs where c: "c = x # xs" using assms(1) by (cases c) auto
  have "count_match_here (c @ ''.count'') = Some c"
    using assms by (simp add: count_match_here_def Let_def takeWhile_word dropWhile_word starts_with_def)
  then show ?thesis by (simp add: c)
qed

section \<open>Properties of the store\<close>

lemma filter_match_count: "list_all is_word c \<Longrightarrow> filter_match (c @ ''.count'') = None"
  using word_no_paren [of c] by (intro filter_match_no_paren) simp

text \<open>
  Claim C8. For a collection name made of word characters, evaluating
  \<^verbatim>\<open><collection>.count\<close> changes nothing in the store and returns the number of
  elements when the name is bound to an array, and 0 when it is not (the name is
  missing, or bound to a value that is not an array).
\<close>

theorem evalComputed_count:
  assumes "c \<noteq> []" and "list_all is_word c"
  shows "(own_prop (s_data st) c = HRef a \<and> cell_at (s_heap st) a = Some (CArr items)
            \<longrightarrow> evalComputed st (c @ ''.count'') = Inr (HNum (int (length items)), st))
       \<and> (\<not> is_array (s_heap st) (own_prop (s_data st) c)
            \<longrightarrow> evalComputed st (c @ ''.count'') = Inr (HNum 0, st))"
  using assms
  by (auto simp add: evalComputed_def filter_match_count count_match_exact is_array_def Let_def
      split: hval.splits option.splits cell.splits)

lemma tasks_store_facts:
  "own_prop (s_data tasks_store) ''tasks'' = HRef 0"
  "cell_at (s_heap tasks_store) 0
     = Some (CArr [HStr ''plan'', HStr ''build'', HStr ''test'', HStr ''ship'', HStr ''rest''])"
  "own_prop (s_data tasks_store) ''done'' = HRef 1"
  "cell_at (s_heap tasks_store) 1 = Some (CArr [])"
  "\<not> is_array (s_heap tasks_store) (own_prop (s_data tasks_store) ''missing'')"
  by code_simp+

theorem evalComputed_count_witness:
  "evalComputed tasks_store ''tasks.count'' = Inr (HNum 5, tasks_store)
   \<and> evalComputed tasks_store ''done.count'' = Inr (HNum 0, tasks_store)
   \<and> evalComputed tasks_store ''missing.count'' = Inr (HNum 0, tasks_store)"
proof -
  have w: "list_all is_word ''tasks''" "list_all is_word ''done''" "list_all is_word ''missing''"
    by code_simp+
  have five: "evalComputed tasks_store (''tasks'' @ ''.count'') = Inr (HNum 5, tasks_store)"
    using evalComputed_count [OF _ w(1), of tasks_store 0
        "[HStr ''plan'', HStr ''build'', HStr ''test'', HStr ''ship'', HStr ''rest'']"]
      tasks_store_facts(1,2)
    by simp
  have none: "evalComputed tasks_store (''done'' @ ''.count'') = Inr (HNum 0, tasks_store)"
    using evalComputed_count [OF _ w(2), of tasks_store 1 "[]"] tasks_store_facts(3,4)
    by simp
  have missing: "evalComputed tasks_store (''missing'' @ ''.count'') = Inr (HNum 0, tasks_store)"
    using evalComputed_count [OF _ w(3), of tasks_store 0 "[]"] tasks_store_facts(5)
    by simp
  from five none missing show ?thesis by simp
qed









lemma alloc_is_array: "alloc t h = (v, h') \<Longrightarrow> is_array h' v = json_is_array t"
  by (cases t) (auto simp: is_array_def json_is_array_def cell_at_def split: prod.splits)

lemma alloc_typeof: "alloc t h = (v, h') \<Longrightarrow> typeof v = json_typeof t"
  by (cases t) (auto simp: json_typeof_def split: prod.splits)

text \<open>
  A registration with no schema: the payload is stored under the name, and the stored
  value stands for the payload.
\<close>

lemma load_registers:
  assumes "\<not> truthy_attr (dn_compute node)" and "dn_content node = Some t"
    and "\<not> truthy_attr (dn_schema node)"
  shows "case alloc t (s_heap st) of (payload, h) \<Rightarrow>
           load st node
             = Inr (st \<lparr> s_data := AList.update (prop_key (dn_name node)) payload (s_data st),
                       s_heap := h \<rparr>,
                    (if dn_persist node = Some ''indexeddb''
                     then [PersistToIndexedDB (prop_key (dn_name node)) payload] else [])
                    @ [RemoveNode])
         \<and> reify h payload = Some t"
proof -
  obtain payload h where a: "alloc t (s_heap st) = (payload, h)"
    by (cases "alloc t (s_heap st)")
  show ?thesis
    using assms alloc_reify(1) [OF a] by (simp add: a load_def load_body_def Let_def)
qed

text \<open>
  Claim C7, as stated (the registration fails with an error surfaced to the immediate
  caller, and the store holds no entry for the name), fails: \<^verbatim>\<open>load\<close> catches the
  error of the schema check, logs it and returns normally, and an entry registered
  earlier under the name is still there. Here an object is registered as
  \<^verbatim>\<open>settings\<close> against a schema that declares an array.
\<close>

theorem load_swallows_schema_error:
  "load list_schema_store settings_node
     = Inr (list_schema_store,
            [ErrorFailedToLoad ''settings'' (Error ''Data must be an array'')])
   \<and> own_prop (s_data list_schema_store) ''settings'' = HRef 0"
  by code_simp

text \<open>
  Claim C7, amended: when a raw payload is registered against a registered schema
  that declares the type \<^verbatim>\<open>array\<close> while the payload is not an array, or the type
  \<^verbatim>\<open>object\<close> while the payload is not of object type, the schema check throws its
  error to \<^verbatim>\<open>load\<close>, which catches it, logs it and returns normally; the
  registration is aborted, the store being left exactly as it was before the call.
\<close>

theorem load_schema_mismatch:
  assumes "\<not> truthy_attr (dn_compute node)" and "dn_content node = Some t"
    and "truthy_attr (dn_schema node)"
    and "map_of (s_schemas st) (the (dn_schema node)) = Some sch"
    and "(sch_type sch = Some ''array'' \<and> \<not> json_is_array t)
         \<or> (sch_type sch = Some ''object'' \<and> json_typeof t \<noteq> ''object'')"
  shows "load_body st node = Inl (Error (mismatch_message sch))
       \<and> load st node
           = Inr (st, [ErrorFailedToLoad (prop_key (dn_name node)) (Error (mismatch_message sch))])"
proof -
  obtain payload h where a: "alloc t (s_heap st) = (payload, h)"
    by (cases "alloc t (s_heap st)")
  have v: "store_validate h payload sch = Inl (Error (mismatch_message sch))"
    using assms(5) alloc_is_array [OF a] alloc_typeof [OF a]
    by (auto simp: store_validate_def mismatch_message_def)
  have b: "load_body st node = Inl (Error (mismatch_message sch))"
    using assms(1-4) a v by (simp add: load_body_def Let_def)
  then show ?thesis by (simp add: load_def)
qed

theorem load_schema_mismatch_witness:
  "load_body list_schema_store settings_node = Inl (Error ''Data must be an array'')
   \<and> load list_schema_store settings_node
       = Inr (list_schema_store,
              [ErrorFailedToLoad ''settings'' (Error ''Data must be an array'')])"
proof -
  have h: "\<not> truthy_attr (dn_compute settings_node)"
    "dn_content settings_node = Some (JObj [(''theme'', JStr ''dark'')])"
    "truthy_attr (dn_schema settings_node)"
    "map_of (s_schemas list_schema_store) (the (dn_schema settings_node))
       = Some \<lparr> sch_type = Some ''array'' \<rparr>"
    by code_simp+
  have m: "(sch_type \<lparr> sch_type = Some ''array'' \<rparr> = Some ''array''
        \<and> \<not> json_is_array (JObj [(''theme'', JStr ''dark'')]))
      \<or> (sch_type \<lparr> sch_type = Some ''array'' \<rparr> = Some ''object''
        \<and> json_typeof (JObj [(''theme'', JStr ''dark'')]) \<noteq> ''object'')"
    by (simp add: json_is_array_def)
  have n: "prop_key (dn_name settings_node) = ''settings''"
    "mismatch_message \<lparr> sch_type = Some ''array'' \<rparr> = ''Data must be an array''"
    by code_simp+
  show ?thesis
    using load_schema_mismatch [OF h m] by (simp only: n)
qed

lemma reify_ref:
  assumes "reify h (HRef a) = Some t"
  shows "a < length h" and "json_typeof t = ''object''"
  using assms by (auto simp: json_typeof_def split: if_splits cell.splits)

lemma reify_ref_not_null: "reify h (HRef a) = Some t \<Longrightarrow> t \<noteq> JNull"
  by (auto split: if_splits cell.splits)

lemma alloc_collection:
  assumes "alloc t h = (v, h')" and "json_typeof t = ''object''" and "t \<noteq> JNull"
  shows "\<exists>b. v = HRef b \<and> length h \<le> b"
proof -
  from assms(2,3) obtain b where v: "v = HRef b" "b < length h'"
    using assms(1) by (cases t) (auto simp: json_typeof_def split: prod.splits)
  have "fresh_in h h' v" using alloc_fresh(1) [OF assms(1)] .
  then have "length h \<le> b" using v by (simp add: fresh_in_def)
  with v show ?thesis by simp
qed

text \<open>
  Claim C2. Let a name have no computed binding and be bound to a collection (an array
  or an object) that stands for the tree \<open>t\<close>, as a registration of \<open>t\<close> leaves it
  (\<open>load_registers\<close>). Then \<^verbatim>\<open>get\<close> returns a value that stands for the same tree
  (deeply equal), is not the stored reference (not identity-equal), and is made of
  cells allocated by this call only, so that it shares no cell with the stored
  collection. The stored collection stands for \<open>t\<close> after the call, after any write to a
  cell of the returned value, and in every heap that agrees with the heap of the store
  on the cells that existed before the call.
\<close>

theorem get_returns_independent_copy:
  assumes "\<not> computed_binding st name"
    and "own_prop (s_data st) name = HRef a"
    and "reify (s_heap st) (HRef a) = Some t"
  shows "case alloc t (s_heap st) of (copy, h') \<Rightarrow>
           get st name = Inr (copy, st \<lparr> s_heap := h' \<rparr>, [])
         \<and> reify h' copy = Some t
         \<and> copy \<noteq> HRef a
         \<and> fresh_in (s_heap st) h' copy
         \<and> reify h' (HRef a) = Some t
         \<and> (\<forall>b c. b \<in> set (cells_of h' copy) \<longrightarrow> reify (h'[b := c]) (HRef a) = Some t)
         \<and> (\<forall>h2. take (length (s_heap st)) h2 = s_heap st \<longrightarrow> reify h2 (HRef a) = Some t)"
proof -
  obtain copy h' where al: "alloc t (s_heap st) = (copy, h')"
    by (cases "alloc t (s_heap st)")
  from alloc_extends(1) [OF al] obtain ext where ext: "h' = s_heap st @ ext" by blast
  have a: "a < length (s_heap st)" using reify_ref(1) [OF assms(3)] .
  have g: "get st name = Inr (copy, st \<lparr> s_heap := h' \<rparr>, [])"
    using assms al
    by (auto simp add: get_def computed_binding_def structuredClone_def
        split: option.splits list.splits)
  have deep: "reify h' copy = Some t" using alloc_reify(1) [OF al] .
  have fresh: "fresh_in (s_heap st) h' copy" using alloc_fresh(1) [OF al] .
  obtain b where b: "copy = HRef b" "length (s_heap st) \<le> b"
    using alloc_collection [OF al reify_ref(2) [OF assms(3)] reify_ref_not_null [OF assms(3)]]
    by blast
  have other: "copy \<noteq> HRef a" using a b by simp
  have above: "reify h2 (HRef a) = Some t" if "take (length (s_heap st)) h2 = s_heap st" for h2
    using reify_above [OF a that] assms(3) by simp
  have kept: "reify h' (HRef a) = Some t" by (rule above) (simp add: ext)
  have written: "reify (h'[x := c]) (HRef a) = Some t" if "x \<in> set (cells_of h' copy)" for x c
  proof (rule above)
    from fresh that have "length (s_heap st) \<le> x" by (simp add: fresh_in_def list_all_iff)
    then show "take (length (s_heap st)) (h'[x := c]) = s_heap st" by (simp add: ext)
  qed
  from g deep other fresh kept written above show ?thesis by (simp add: al)
qed

lemma users_store_registered:
  "\<not> computed_binding users_store ''users''"
  "own_prop (s_data users_store) ''users'' = HRef 2"
  "reify (s_heap users_store) (HRef 2) = Some users_payload"
  by code_simp+

theorem get_returns_independent_copy_witness:
  "get users_store ''users''
     = Inr (HRef 5, users_store \<lparr> s_heap := s_heap users_store @
              [CObj [(''id'', HNum 1), (''active'', HBool True)],
               CObj [(''id'', HNum 2), (''active'', HBool False)],
               CArr [HRef 3, HRef 4]] \<rparr>, [])
   \<and> reify (s_heap users_store @
              [CObj [(''id'', HNum 1), (''active'', HBool True)],
               CObj [(''id'', HNum 2), (''active'', HBool False)],
               CArr [HRef 3, HRef 4]]) (HRef 5) = Some users_payload
   \<and> reify ((s_heap users_store @
              [CObj [(''id'', HNum 1), (''active'', HBool True)],
               CObj [(''id'', HNum 2), (''active'', HBool False)],
               CArr [HRef 3, HRef 4]]) [3 := CObj [(''id'', HNum 99)]]) (HRef 2) = Some users_payload"
proof -
  let ?H = "s_heap users_store @
              [CObj [(''id'', HNum 1), (''active'', HBool True)],
               CObj [(''id'', HNum 2), (''active'', HBool False)],
               CArr [HRef 3, HRef 4]]"
  have al: "alloc users_payload (s_heap users_store) = (HRef 5, ?H)"
    by code_simp
  have cell: "3 \<in> set (cells_of ?H (HRef 5))"
    by code_simp
  note inst = get_returns_independent_copy [OF users_store_registered, unfolded al prod.case]
  from inst cell show ?thesis by blast
qed

end
